theory Spec2Isabelle
  imports Main "HOL-Library.AList" "HOL-Library.Word"
begin

section \<open>Data model\<close>

text \<open>
  The service keeps two in-memory dictionaries, \<^verbatim>\<open>courses\<close> and \<^verbatim>\<open>teachers\<close>
  (src/main.py), whose values are the pydantic models of src/models/course.py and
  src/models/teacher.py. A model class becomes a record. A UUID is a 128-bit value, a
  \<^verbatim>\<open>datetime\<close> is a point on the integer time line. Strings are \<open>string\<close>, one
  \<open>char\<close> per code point, so the development covers the code points below 256; there the
  regular expression class \<^verbatim>\<open>\d\<close> is exactly the ten ASCII digits.
\<close>

type_synonym uuid = "128 word"
type_synonym datetime = int

text \<open>
  A pydantic object records which of its fields the caller supplied
  (\<^verbatim>\<open>model_fields_set\<close>); a field that was not supplied holds its default. An optional
  field of a payload is therefore \<open>Absent\<close> or \<open>Present v\<close>, and \<open>Present None\<close> is an
  explicit null. The same type describes a key of a Python dict that may be missing.
\<close>

datatype 'a patch = Absent | Present 'a

text \<open>\<^verbatim>\<open>CourseBase\<close>; \<^verbatim>\<open>CourseCreate\<close> adds no field to it.\<close>

record course_base =
  cb_id :: uuid
  cb_code :: string
  cb_title :: string
  cb_credits :: int
  cb_location :: "string option"

text \<open>\<^verbatim>\<open>CourseRead\<close>: the fields of \<^verbatim>\<open>CourseBase\<close> and the two timestamps.\<close>

record course_read =
  cr_id :: uuid
  cr_code :: string
  cr_title :: string
  cr_credits :: int
  cr_location :: "string option"
  cr_created_at :: datetime
  cr_updated_at :: datetime

text \<open>\<^verbatim>\<open>CourseUpdate\<close>: four fields, each \<^verbatim>\<open>Optional\<close> with default \<^verbatim>\<open>None\<close>.\<close>

record course_update =
  cu_code :: "string option patch"
  cu_title :: "string option patch"
  cu_credits :: "int option patch"
  cu_location :: "string option patch"

text \<open>
  The keyword dictionary handed to the constructor \<^verbatim>\<open>CourseRead(**d)\<close>. The keys
  \<^verbatim>\<open>created_at\<close> and \<^verbatim>\<open>updated_at\<close> are missing when the dictionary is the dump of a
  \<^verbatim>\<open>CourseCreate\<close>; the four payload fields may hold \<^verbatim>\<open>None\<close> after an update.
\<close>

record course_dict =
  cd_id :: uuid
  cd_code :: "string option"
  cd_title :: "string option"
  cd_credits :: "int option"
  cd_location :: "string option"
  cd_created_at :: "datetime patch"
  cd_updated_at :: "datetime patch"

text \<open>
  A \<^verbatim>\<open>CourseBase\<close> object inside an update payload, with the fields that have a default
  (\<^verbatim>\<open>id\<close>, \<^verbatim>\<open>location\<close>) marked as supplied or not; equally its dump under
  \<^verbatim>\<open>exclude_unset=True\<close>, a dict from which the keys not supplied are missing.
\<close>

record course_item =
  ci_id :: "uuid patch"
  ci_code :: string
  ci_title :: string
  ci_credits :: int
  ci_location :: "string option patch"

text \<open>\<^verbatim>\<open>TeacherBase\<close>; \<^verbatim>\<open>TeacherCreate\<close> adds no field to it.\<close>

record teacher_create =
  tc_uni :: string
  tc_first_name :: string
  tc_last_name :: string
  tc_department :: string
  tc_email :: string
  tc_academic_title :: "string option"
  tc_office :: "string option"
  tc_courses :: "course_base list"

text \<open>\<^verbatim>\<open>TeacherRead\<close>: the fields of \<^verbatim>\<open>TeacherBase\<close>, the id and the two timestamps.\<close>

record teacher_read =
  tr_uni :: string
  tr_first_name :: string
  tr_last_name :: string
  tr_department :: string
  tr_email :: string
  tr_academic_title :: "string option"
  tr_office :: "string option"
  tr_courses :: "course_base list"
  tr_id :: uuid
  tr_created_at :: datetime
  tr_updated_at :: datetime

text \<open>\<^verbatim>\<open>TeacherUpdate\<close>: eight fields, each \<^verbatim>\<open>Optional\<close> with default \<^verbatim>\<open>None\<close>.\<close>

record teacher_update =
  tu_uni :: "string option patch"
  tu_first_name :: "string option patch"
  tu_last_name :: "string option patch"
  tu_department :: "string option patch"
  tu_email :: "string option patch"
  tu_academic_title :: "string option patch"
  tu_office :: "string option patch"
  tu_courses :: "course_item list option patch"

text \<open>The keyword dictionary handed to the constructor \<^verbatim>\<open>TeacherRead(**d)\<close>.\<close>

record teacher_dict =
  td_uni :: "string option"
  td_first_name :: "string option"
  td_last_name :: "string option"
  td_department :: "string option"
  td_email :: "string option"
  td_academic_title :: "string option"
  td_office :: "string option"
  td_courses :: "course_item list option"
  td_id :: "uuid patch"
  td_created_at :: "datetime patch"
  td_updated_at :: "datetime patch"

text \<open>
  The two dictionaries. A Python dict keeps its keys in insertion order, assignment to an
  existing key keeps the key's position, and \<^verbatim>\<open>list(d.values())\<close> follows that order:
  an association list with \<^const>\<open>AList.update\<close> for \<^verbatim>\<open>d[k] = v\<close>,
  \<^const>\<open>map_of\<close> for lookup and \<open>map snd\<close> for the values.
\<close>

record db =
  db_courses :: "(uuid \<times> course_read) list"
  db_teachers :: "(uuid \<times> teacher_read) list"

text \<open>
  What a request takes from outside the program: the values that successive calls of
  \<^verbatim>\<open>uuid4()\<close> and of \<^verbatim>\<open>datetime.utcnow()\<close> return while the request is served
  (call number \<open>k\<close>, counted from 0, returns \<open>uuid4 e k\<close>).
\<close>

record env =
  uuid4 :: "nat \<Rightarrow> uuid"
  utcnow :: "nat \<Rightarrow> datetime"

text \<open>
  The failures of a handler: \<^verbatim>\<open>HTTPException\<close> with status 404 and 400, and pydantic's
  \<^verbatim>\<open>ValidationError\<close>, raised by a model constructor that the handler calls and not
  caught by the handler.
\<close>

datatype error = NotFound | Conflict | ValidationError

section \<open>Field constraints\<close>

definition upper :: "char \<Rightarrow> bool" where
  "upper c = (c \<in> set ''ABCDEFGHIJKLMNOPQRSTUVWXYZ'')"

definition lower :: "char \<Rightarrow> bool" where
  "lower c = (c \<in> set ''abcdefghijklmnopqrstuvwxyz'')"

definition digit :: "char \<Rightarrow> bool" where
  "digit c = (c \<in> set ''0123456789'')"

text \<open>
  \<^verbatim>\<open>CourseCode\<close>: the pattern \<^verbatim>\<open>^[A-Z]{4}\d{4}$\<close>, anchored at both ends of the
  string: eight characters, four upper-case letters and then four digits.
\<close>

definition CourseCode :: "string \<Rightarrow> bool" where
  "CourseCode s = (length s = 8 \<and> list_all upper (take 4 s) \<and> list_all digit (drop 4 s))"

text \<open>
  \<^verbatim>\<open>UNIType\<close>: the pattern \<^verbatim>\<open>^[a-z]{2,3}\d{1,4}$\<close>. The two character classes are
  disjoint, so a string matches exactly when its longest prefix of lower-case letters
  has 2 or 3 characters and the rest is 1 to 4 digits.
\<close>

definition UNIType :: "string \<Rightarrow> bool" where
  "UNIType s =
     (let letters = takeWhile lower s; rest = dropWhile lower s
      in 2 \<le> length letters \<and> length letters \<le> 3 \<and>
         1 \<le> length rest \<and> length rest \<le> 4 \<and> list_all digit rest)"

text \<open>\<^verbatim>\<open>credits: int = Field(..., ge=1, le=5)\<close>.\<close>

definition credits_ok :: "int \<Rightarrow> bool" where
  "credits_ok n = (1 \<le> n \<and> n \<le> 5)"

section \<open>Course handlers\<close>

text \<open>\<^verbatim>\<open>model_dump()\<close> of a \<^verbatim>\<open>CourseCreate\<close> and of a stored \<^verbatim>\<open>CourseRead\<close>.\<close>

definition dump_course_create :: "course_base \<Rightarrow> course_dict" where
  "dump_course_create c =
     \<lparr>cd_id = cb_id c, cd_code = Some (cb_code c), cd_title = Some (cb_title c),
      cd_credits = Some (cb_credits c), cd_location = cb_location c,
      cd_created_at = Absent, cd_updated_at = Absent\<rparr>"

definition dump_course_read :: "course_read \<Rightarrow> course_dict" where
  "dump_course_read c =
     \<lparr>cd_id = cr_id c, cd_code = Some (cr_code c), cd_title = Some (cr_title c),
      cd_credits = Some (cr_credits c), cd_location = cr_location c,
      cd_created_at = Present (cr_created_at c), cd_updated_at = Present (cr_updated_at c)\<rparr>"

text \<open>
  \<^verbatim>\<open>stored.update(update.model_dump(exclude_unset=True))\<close>: the dump holds the supplied
  fields only, and \<^verbatim>\<open>dict.update\<close> overwrites exactly those keys.
\<close>

definition overwrite :: "'a \<Rightarrow> 'a patch \<Rightarrow> 'a" where
  "overwrite old p = (case p of Absent \<Rightarrow> old | Present v \<Rightarrow> v)"

definition merge_course :: "course_dict \<Rightarrow> course_update \<Rightarrow> course_dict" where
  "merge_course stored u =
     stored\<lparr>cd_code := overwrite (cd_code stored) (cu_code u),
            cd_title := overwrite (cd_title stored) (cu_title u),
            cd_credits := overwrite (cd_credits stored) (cu_credits u),
            cd_location := overwrite (cd_location stored) (cu_location u)\<rparr>"

text \<open>
  The constructor \<^verbatim>\<open>CourseRead(**d)\<close>: \<^verbatim>\<open>code\<close>, \<^verbatim>\<open>title\<close> and \<^verbatim>\<open>credits\<close> are
  required and not optional, so \<^verbatim>\<open>None\<close> is refused; \<^verbatim>\<open>code\<close> must match its pattern
  and \<^verbatim>\<open>credits\<close> lie in its range; a missing timestamp is taken from
  \<^verbatim>\<open>datetime.utcnow\<close>, \<^verbatim>\<open>created_at\<close> before \<^verbatim>\<open>updated_at\<close>. \<open>None\<close> stands for the
  \<^verbatim>\<open>ValidationError\<close>.
\<close>

definition CourseRead :: "env \<Rightarrow> course_dict \<Rightarrow> course_read option" where
  "CourseRead e d =
     (case (cd_code d, cd_title d, cd_credits d) of
        (Some code, Some title, Some credits) \<Rightarrow>
          if CourseCode code \<and> credits_ok credits
          then Some \<lparr>cr_id = cd_id d, cr_code = code, cr_title = title, cr_credits = credits,
                     cr_location = cd_location d,
                     cr_created_at = (case cd_created_at d of Absent \<Rightarrow> utcnow e 0 | Present t \<Rightarrow> t),
                     cr_updated_at =
                       (case cd_updated_at d of
                          Absent \<Rightarrow> utcnow e (case cd_created_at d of Absent \<Rightarrow> 1 | Present _ \<Rightarrow> 0)
                        | Present t \<Rightarrow> t)\<rparr>
          else None
      | _ \<Rightarrow> None)"

definition create_course :: "env \<Rightarrow> course_base \<Rightarrow> db \<Rightarrow> (error + course_read) \<times> db" where
  "create_course e course s =
     (if map_of (db_courses s) (cb_id course) \<noteq> None then (Inl Conflict, s)
      else case CourseRead e (dump_course_create course) of
             None \<Rightarrow> (Inl ValidationError, s)
           | Some c \<Rightarrow> (Inr c, s\<lparr>db_courses := AList.update (cb_id course) c (db_courses s)\<rparr>))"

definition update_course :: "env \<Rightarrow> uuid \<Rightarrow> course_update \<Rightarrow> db \<Rightarrow> (error + course_read) \<times> db" where
  "update_course e course_id u s =
     (case map_of (db_courses s) course_id of
        None \<Rightarrow> (Inl NotFound, s)
      | Some c \<Rightarrow>
          (case CourseRead e (merge_course (dump_course_read c) u) of
             None \<Rightarrow> (Inl ValidationError, s)
           | Some c' \<Rightarrow> (Inr c', s\<lparr>db_courses := AList.update course_id c' (db_courses s)\<rparr>)))"

text \<open>
  \<^verbatim>\<open>list_courses\<close>: each \<^verbatim>\<open>if x is not None: results = [a for a in results if ...]\<close>
  is one application of \<open>narrow\<close>. The handler has no \<^verbatim>\<open>raise\<close>; it returns a list.
  The bounds \<^verbatim>\<open>ge=1, le=5\<close> that \<^verbatim>\<open>Query\<close> attaches to \<^verbatim>\<open>credits\<close> are checked by the
  framework before the handler is called; the body of the handler compares whatever
  number it is given.
\<close>

definition narrow :: "'v option \<Rightarrow> ('v \<Rightarrow> 'a \<Rightarrow> bool) \<Rightarrow> 'a list \<Rightarrow> 'a list" where
  "narrow criterion keep results =
     (case criterion of None \<Rightarrow> results | Some v \<Rightarrow> filter (keep v) results)"

definition list_courses ::
  "string option \<Rightarrow> string option \<Rightarrow> int option \<Rightarrow> string option \<Rightarrow> db \<Rightarrow> course_read list" where
  "list_courses code title credits location s =
     (let results = map snd (db_courses s);
          results = narrow code (\<lambda>v a. cr_code a = v) results;
          results = narrow title (\<lambda>v a. cr_title a = v) results;
          results = narrow credits (\<lambda>v a. cr_credits a = v) results;
          results = narrow location (\<lambda>v a. cr_location a = Some v) results
      in results)"

section \<open>Teacher handlers\<close>

text \<open>
  \<^verbatim>\<open>model_dump()\<close> without \<^verbatim>\<open>exclude_unset\<close> writes every key of an embedded course,
  its id included.
\<close>

definition dump_course_base :: "course_base \<Rightarrow> course_item" where
  "dump_course_base c =
     \<lparr>ci_id = Present (cb_id c), ci_code = cb_code c, ci_title = cb_title c,
      ci_credits = cb_credits c, ci_location = Present (cb_location c)\<rparr>"

definition dump_teacher_create :: "teacher_create \<Rightarrow> teacher_dict" where
  "dump_teacher_create t =
     \<lparr>td_uni = Some (tc_uni t), td_first_name = Some (tc_first_name t),
      td_last_name = Some (tc_last_name t), td_department = Some (tc_department t),
      td_email = Some (tc_email t), td_academic_title = tc_academic_title t,
      td_office = tc_office t, td_courses = Some (map dump_course_base (tc_courses t)),
      td_id = Absent, td_created_at = Absent, td_updated_at = Absent\<rparr>"

definition dump_teacher_read :: "teacher_read \<Rightarrow> teacher_dict" where
  "dump_teacher_read t =
     \<lparr>td_uni = Some (tr_uni t), td_first_name = Some (tr_first_name t),
      td_last_name = Some (tr_last_name t), td_department = Some (tr_department t),
      td_email = Some (tr_email t), td_academic_title = tr_academic_title t,
      td_office = tr_office t, td_courses = Some (map dump_course_base (tr_courses t)),
      td_id = Present (tr_id t), td_created_at = Present (tr_created_at t),
      td_updated_at = Present (tr_updated_at t)\<rparr>"

definition merge_teacher :: "teacher_dict \<Rightarrow> teacher_update \<Rightarrow> teacher_dict" where
  "merge_teacher stored u =
     stored\<lparr>td_uni := overwrite (td_uni stored) (tu_uni u),
            td_first_name := overwrite (td_first_name stored) (tu_first_name u),
            td_last_name := overwrite (td_last_name stored) (tu_last_name u),
            td_department := overwrite (td_department stored) (tu_department u),
            td_email := overwrite (td_email stored) (tu_email u),
            td_academic_title := overwrite (td_academic_title stored) (tu_academic_title u),
            td_office := overwrite (td_office stored) (tu_office u),
            td_courses := overwrite (td_courses stored) (tu_courses u)\<rparr>"

text \<open>
  The embedded list \<^verbatim>\<open>courses: List[CourseBase]\<close> built from dicts: each entry is
  validated as a \<^verbatim>\<open>CourseBase\<close>; an entry without the key \<^verbatim>\<open>id\<close> takes the next
  value of \<^verbatim>\<open>uuid4\<close> (\<^verbatim>\<open>default_factory=uuid4\<close>), an entry without \<^verbatim>\<open>location\<close> the
  default \<^verbatim>\<open>None\<close>. \<open>n\<close> counts the calls of \<^verbatim>\<open>uuid4\<close> made so far.
\<close>

definition CourseBase :: "uuid \<Rightarrow> course_item \<Rightarrow> course_base" where
  "CourseBase default_id i =
     \<lparr>cb_id = overwrite default_id (ci_id i), cb_code = ci_code i, cb_title = ci_title i,
      cb_credits = ci_credits i, cb_location = overwrite None (ci_location i)\<rparr>"

fun CourseBase_list :: "env \<Rightarrow> nat \<Rightarrow> course_item list \<Rightarrow> course_base list option" where
  "CourseBase_list e n [] = Some []"
| "CourseBase_list e n (i # items) =
     (if CourseCode (ci_code i) \<and> credits_ok (ci_credits i)
      then map_option ((#) (CourseBase (uuid4 e n) i))
             (CourseBase_list e (if ci_id i = Absent then Suc n else n) items)
      else None)"

definition missing_ids :: "course_item list \<Rightarrow> nat" where
  "missing_ids items = length (filter (\<lambda>i. ci_id i = Absent) items)"

text \<open>
  The constructor \<^verbatim>\<open>TeacherRead(**d)\<close>. The five required strings and \<^verbatim>\<open>courses\<close>
  refuse \<^verbatim>\<open>None\<close>; \<^verbatim>\<open>uni\<close> must match its pattern; \<^verbatim>\<open>email\<close> is an
  \<^verbatim>\<open>EmailStr\<close>, whose check belongs to pydantic and is the parameter \<open>email_ok\<close>
  (the addresses that reach the constructor come from a validated payload or from the
  store, so they are already in the form the check returns).
  The fields are built in the order of their declaration: the embedded courses first,
  then \<^verbatim>\<open>id\<close>, \<^verbatim>\<open>created_at\<close>, \<^verbatim>\<open>updated_at\<close>, each from its default factory when
  its key is missing. \<open>None\<close> stands for the \<^verbatim>\<open>ValidationError\<close>.
\<close>

definition TeacherRead :: "(string \<Rightarrow> bool) \<Rightarrow> env \<Rightarrow> teacher_dict \<Rightarrow> teacher_read option" where
  "TeacherRead email_ok e d =
     (case (td_uni d, td_first_name d, td_last_name d, td_department d, td_email d, td_courses d) of
        (Some uni, Some first_name, Some last_name, Some department, Some email, Some items) \<Rightarrow>
          if UNIType uni \<and> email_ok email
          then (case CourseBase_list e 0 items of
                  None \<Rightarrow> None
                | Some cs \<Rightarrow>
                    Some \<lparr>tr_uni = uni, tr_first_name = first_name, tr_last_name = last_name,
                          tr_department = department, tr_email = email,
                          tr_academic_title = td_academic_title d, tr_office = td_office d,
                          tr_courses = cs,
                          tr_id = (case td_id d of Absent \<Rightarrow> uuid4 e (missing_ids items) | Present i \<Rightarrow> i),
                          tr_created_at = (case td_created_at d of Absent \<Rightarrow> utcnow e 0 | Present t \<Rightarrow> t),
                          tr_updated_at =
                            (case td_updated_at d of
                               Absent \<Rightarrow> utcnow e (case td_created_at d of Absent \<Rightarrow> 1 | Present _ \<Rightarrow> 0)
                             | Present t \<Rightarrow> t)\<rparr>)
          else None
      | _ \<Rightarrow> None)"

definition create_teacher ::
  "(string \<Rightarrow> bool) \<Rightarrow> env \<Rightarrow> teacher_create \<Rightarrow> db \<Rightarrow> (error + teacher_read) \<times> db" where
  "create_teacher email_ok e teacher s =
     (case TeacherRead email_ok e (dump_teacher_create teacher) of
        None \<Rightarrow> (Inl ValidationError, s)
      | Some teacher_read \<Rightarrow>
          (Inr teacher_read,
           s\<lparr>db_teachers := AList.update (tr_id teacher_read) teacher_read (db_teachers s)\<rparr>))"

definition update_teacher ::
  "(string \<Rightarrow> bool) \<Rightarrow> env \<Rightarrow> uuid \<Rightarrow> teacher_update \<Rightarrow> db \<Rightarrow> (error + teacher_read) \<times> db" where
  "update_teacher email_ok e teacher_id u s =
     (case map_of (db_teachers s) teacher_id of
        None \<Rightarrow> (Inl NotFound, s)
      | Some t \<Rightarrow>
          (case TeacherRead email_ok e (merge_teacher (dump_teacher_read t) u) of
             None \<Rightarrow> (Inl ValidationError, s)
           | Some t' \<Rightarrow> (Inr t', s\<lparr>db_teachers := AList.update teacher_id t' (db_teachers s)\<rparr>)))"

text \<open>
  \<^verbatim>\<open>list_teachers\<close>. The two nested criteria are
  \<^verbatim>\<open>any((c.location or "") == location for c in t.courses)\<close> and
  \<^verbatim>\<open>any(c.credits == credits for c in t.courses)\<close>; \<^verbatim>\<open>x or ""\<close> is \<^verbatim>\<open>""\<close> when \<^verbatim>\<open>x\<close>
  is \<^verbatim>\<open>None\<close> or the empty string, and \<^verbatim>\<open>x\<close> otherwise.
\<close>

definition or_empty :: "string option \<Rightarrow> string" where
  "or_empty x = (case x of None \<Rightarrow> [] | Some v \<Rightarrow> if v = [] then [] else v)"

definition list_teachers ::
  "string option \<Rightarrow> string option \<Rightarrow> string option \<Rightarrow> string option \<Rightarrow> string option \<Rightarrow>
   string option \<Rightarrow> string option \<Rightarrow> string option \<Rightarrow> int option \<Rightarrow> db \<Rightarrow> teacher_read list" where
  "list_teachers uni first_name last_name department email academic_title office location credits s =
     (let results = map snd (db_teachers s);
          results = narrow uni (\<lambda>v p. tr_uni p = v) results;
          results = narrow first_name (\<lambda>v p. tr_first_name p = v) results;
          results = narrow last_name (\<lambda>v p. tr_last_name p = v) results;
          results = narrow department (\<lambda>v p. tr_department p = v) results;
          results = narrow email (\<lambda>v p. tr_email p = v) results;
          results = narrow academic_title (\<lambda>v p. tr_academic_title p = Some v) results;
          results = narrow office (\<lambda>v p. tr_office p = Some v) results;
          results = narrow location (\<lambda>v t. list_ex (\<lambda>c. or_empty (cb_location c) = v) (tr_courses t)) results;
          results = narrow credits (\<lambda>v t. list_ex (\<lambda>c. cb_credits c = v) (tr_courses t)) results
      in results)"

section \<open>Example data\<close>

text \<open>A small database, two request environments and two update payloads, used to run the handlers.\<close>

definition example_env :: env where
  "example_env = \<lparr>uuid4 = (\<lambda>k. of_nat k + 100), utcnow = (\<lambda>k. int k + 50)\<rparr>"

definition example_env' :: env where
  "example_env' = \<lparr>uuid4 = (\<lambda>k. of_nat k + 200), utcnow = (\<lambda>k. int k + 60)\<rparr>"

definition example_email_ok :: "string \<Rightarrow> bool" where
  "example_email_ok s = (CHR ''@'' \<in> set s)"

definition example_course :: course_read where
  "example_course =
     \<lparr>cr_id = 1, cr_code = ''COMS4701'', cr_title = ''Cloud Computing'', cr_credits = 3,
      cr_location = None, cr_created_at = 10, cr_updated_at = 10\<rparr>"

definition example_course' :: course_read where
  "example_course' =
     \<lparr>cr_id = 2, cr_code = ''COMS4111'', cr_title = ''Introduction to Databases'', cr_credits = 3,
      cr_location = Some ''417 International Affairs Building'', cr_created_at = 11,
      cr_updated_at = 11\<rparr>"

definition example_teacher :: teacher_read where
  "example_teacher =
     \<lparr>tr_uni = ''dff9'', tr_first_name = ''Donald'', tr_last_name = ''Ferguson'',
      tr_department = ''COMS'', tr_email = ''dff9@example.com'',
      tr_academic_title = Some ''Professor'', tr_office = None,
      tr_courses = [\<lparr>cb_id = 7, cb_code = ''COMS4701'', cb_title = ''Cloud Computing'',
                     cb_credits = 3, cb_location = None\<rparr>],
      tr_id = 9, tr_created_at = 12, tr_updated_at = 12\<rparr>"

definition example_db :: db where
  "example_db =
     \<lparr>db_courses = [(1, example_course), (2, example_course')],
      db_teachers = [(9, example_teacher)]\<rparr>"

definition example_course_update :: course_update where
  "example_course_update =
     \<lparr>cu_code = Absent, cu_title = Absent, cu_credits = Present (Some 4),
      cu_location = Present (Some ''501 Northwest Corner'')\<rparr>"

definition example_teacher_update :: teacher_update where
  "example_teacher_update =
     \<lparr>tu_uni = Absent, tu_first_name = Present (Some ''Don''), tu_last_name = Absent,
      tu_department = Absent, tu_email = Absent, tu_academic_title = Present None,
      tu_office = Present (Some ''Mudd 620''),
      tu_courses = Present (Some [\<lparr>ci_id = Absent, ci_code = ''HUMA1123'',
        ci_title = ''Music Humanities'', ci_credits = 3,
        ci_location = Present (Some ''404 Dodge Hall'')\<rparr>])\<rparr>"

definition example_teacher_update' :: teacher_update where
  "example_teacher_update' =
     \<lparr>tu_uni = Absent, tu_first_name = Absent, tu_last_name = Absent,
      tu_department = Present (Some ''HUMA''), tu_email = Absent, tu_academic_title = Absent,
      tu_office = Absent,
      tu_courses = Present (Some [\<lparr>ci_id = Present 8, ci_code = ''HUMA1123'',
        ci_title = ''Music Humanities'', ci_credits = 3, ci_location = Absent\<rparr>])\<rparr>"

definition example_teacher_create :: "uuid \<Rightarrow> teacher_create" where
  "example_teacher_create embedded_id =
     \<lparr>tc_uni = ''hi1234'', tc_first_name = ''Hugh'', tc_last_name = ''Ingrid'',
      tc_department = ''COMS'', tc_email = ''hi1234@columbia.edu'',
      tc_academic_title = Some ''Teaching Assistant'', tc_office = None,
      tc_courses = [\<lparr>cb_id = embedded_id, cb_code = ''COMS4701'', cb_title = ''Cloud Computing'',
        cb_credits = 3, cb_location = Some ''501 Northwest Corner''\<rparr>]\<rparr>"

section \<open>The two patterns\<close>

text \<open>The executable checks agree with the patterns read as concatenations.\<close>

lemma CourseCode_iff:
  "CourseCode s \<longleftrightarrow>
     (\<exists>letters digits. s = letters @ digits \<and> length letters = 4 \<and> list_all upper letters \<and>
        length digits = 4 \<and> list_all digit digits)"
proof
  assume "CourseCode s"
  then have "s = take 4 s @ drop 4 s \<and> length (take 4 s) = 4 \<and> list_all upper (take 4 s) \<and>
      length (drop 4 s) = 4 \<and> list_all digit (drop 4 s)"
    by (simp add: CourseCode_def)
  then show "\<exists>letters digits. s = letters @ digits \<and> length letters = 4 \<and> list_all upper letters \<and>
        length digits = 4 \<and> list_all digit digits"
    by blast
next
  assume "\<exists>letters digits. s = letters @ digits \<and> length letters = 4 \<and> list_all upper letters \<and>
        length digits = 4 \<and> list_all digit digits"
  then show "CourseCode s"
    by (auto simp: CourseCode_def)
qed

lemma digit_not_lower: "digit c \<Longrightarrow> \<not> lower c"
  by (auto simp: digit_def lower_def)

lemma UNIType_iff:
  "UNIType s \<longleftrightarrow>
     (\<exists>letters digits. s = letters @ digits \<and> 2 \<le> length letters \<and> length letters \<le> 3 \<and>
        list_all lower letters \<and> 1 \<le> length digits \<and> length digits \<le> 4 \<and> list_all digit digits)"
proof
  assume u: "UNIType s"
  have "s = takeWhile lower s @ dropWhile lower s" by simp
  moreover have "list_all lower (takeWhile lower s)"
    by (auto simp: list_all_iff dest: set_takeWhileD)
  ultimately show "\<exists>letters digits. s = letters @ digits \<and> 2 \<le> length letters \<and> length letters \<le> 3 \<and>
        list_all lower letters \<and> 1 \<le> length digits \<and> length digits \<le> 4 \<and> list_all digit digits"
    using u unfolding UNIType_def Let_def by blast
next
  assume "\<exists>letters digits. s = letters @ digits \<and> 2 \<le> length letters \<and> length letters \<le> 3 \<and>
        list_all lower letters \<and> 1 \<le> length digits \<and> length digits \<le> 4 \<and> list_all digit digits"
  then obtain letters digits where s: "s = letters @ digits"
    and l: "2 \<le> length letters" "length letters \<le> 3" "list_all lower letters"
    and d: "1 \<le> length digits" "length digits \<le> 4" "list_all digit digits"
    by blast
  from d(1) obtain x xs where x: "digits = x # xs" by (cases digits) auto
  with d(3) have "\<not> lower x" by (simp add: digit_not_lower)
  with x have "takeWhile lower digits = []" "dropWhile lower digits = digits" by simp_all
  with l(3) have "takeWhile lower s = letters" "dropWhile lower s = digits"
    by (simp_all add: s list_all_iff takeWhile_append2 dropWhile_append2)
  with l d show "UNIType s" by (simp add: UNIType_def)
qed

section \<open>Properties of the constructors and of the merge\<close>

lemmas constraint_defs = CourseCode_def UNIType_def credits_ok_def upper_def lower_def digit_def

lemmas handler_defs =
  create_course_def update_course_def CourseRead_def dump_course_create_def dump_course_read_def
  merge_course_def overwrite_def create_teacher_def update_teacher_def TeacherRead_def
  dump_teacher_create_def dump_teacher_read_def dump_course_base_def merge_teacher_def
  CourseBase_def missing_ids_def list_courses_def list_teachers_def narrow_def or_empty_def

lemmas example_defs =
  example_env_def example_env'_def example_email_ok_def example_course_def example_course'_def
  example_teacher_def example_db_def
  example_course_update_def example_teacher_update_def
  example_teacher_update'_def example_teacher_create_def

lemma TeacherRead_Some:
  assumes "TeacherRead email_ok e d = Some t"
  shows "td_uni d = Some (tr_uni t)" "td_first_name d = Some (tr_first_name t)"
    "td_last_name d = Some (tr_last_name t)" "td_department d = Some (tr_department t)"
    "td_email d = Some (tr_email t)" "td_academic_title d = tr_academic_title t"
    "td_office d = tr_office t"
    "\<exists>items. td_courses d = Some items \<and> CourseBase_list e 0 items = Some (tr_courses t) \<and>
       tr_id t = (case td_id d of Absent \<Rightarrow> uuid4 e (missing_ids items) | Present i \<Rightarrow> i)"
    "UNIType (tr_uni t)" "email_ok (tr_email t)"
    "tr_created_at t = (case td_created_at d of Absent \<Rightarrow> utcnow e 0 | Present x \<Rightarrow> x)"
    "tr_updated_at t =
       (case td_updated_at d of
          Absent \<Rightarrow> utcnow e (case td_created_at d of Absent \<Rightarrow> 1 | Present _ \<Rightarrow> 0)
        | Present x \<Rightarrow> x)"
  using assms unfolding TeacherRead_def
  by (cases "td_uni d"; cases "td_first_name d"; cases "td_last_name d"; cases "td_department d";
      cases "td_email d"; cases "td_courses d"; simp split: if_splits option.splits; auto)+

lemma CourseRead_Some:
  assumes "CourseRead e d = Some c"
  shows "cd_code d = Some (cr_code c)" "cd_title d = Some (cr_title c)"
    "cd_credits d = Some (cr_credits c)" "cd_location d = cr_location c"
    "cr_id c = cd_id d" "CourseCode (cr_code c)" "credits_ok (cr_credits c)"
    "cr_created_at c = (case cd_created_at d of Absent \<Rightarrow> utcnow e 0 | Present x \<Rightarrow> x)"
    "cr_updated_at c =
       (case cd_updated_at d of
          Absent \<Rightarrow> utcnow e (case cd_created_at d of Absent \<Rightarrow> 1 | Present _ \<Rightarrow> 0)
        | Present x \<Rightarrow> x)"
  using assms unfolding CourseRead_def
  by (cases "cd_code d"; cases "cd_title d"; cases "cd_credits d"; simp split: if_splits; auto)+

lemma update_course_Inr:
  assumes "update_course e course_id u s = (Inr c', s')"
    and "map_of (db_courses s) course_id = Some c"
  shows "CourseRead e (merge_course (dump_course_read c) u) = Some c'"
    and "s' = s\<lparr>db_courses := AList.update course_id c' (db_courses s)\<rparr>"
  using assms by (auto simp: update_course_def split: option.splits)

lemma update_teacher_Inr:
  assumes "update_teacher email_ok e teacher_id u s = (Inr t', s')"
    and "map_of (db_teachers s) teacher_id = Some t"
  shows "TeacherRead email_ok e (merge_teacher (dump_teacher_read t) u) = Some t'"
    and "s' = s\<lparr>db_teachers := AList.update teacher_id t' (db_teachers s)\<rparr>"
  using assms by (auto simp: update_teacher_def split: option.splits)

lemma overwrite_simps [simp]:
  "overwrite old Absent = old" "overwrite old (Present v) = v"
  by (simp_all add: overwrite_def)

lemma missing_ids_simps [simp]:
  "missing_ids [] = 0"
  "missing_ids (i # items) = (if ci_id i = Absent then Suc (missing_ids items) else missing_ids items)"
  by (simp_all add: missing_ids_def)

lemma CourseBase_list_length:
  "CourseBase_list e n items = Some cs \<Longrightarrow> length cs = length items"
  by (induction items arbitrary: n cs) (auto split: if_splits)

lemma CourseBase_list_nth:
  "CourseBase_list e n items = Some cs \<Longrightarrow> i < length items \<Longrightarrow>
     cs ! i = CourseBase (uuid4 e (n + missing_ids (take i items))) (items ! i)"
proof (induction items arbitrary: n cs i)
  case Nil
  then show ?case by simp
next
  case (Cons a items)
  from Cons.prems(1) obtain cs' where
    tl: "CourseBase_list e (if ci_id a = Absent then Suc n else n) items = Some cs'"
    and cs: "cs = CourseBase (uuid4 e n) a # cs'"
    by (auto split: if_splits)
  show ?case
  proof (cases i)
    case 0
    then show ?thesis by (simp add: cs)
  next
    case (Suc j)
    with Cons.prems(2) have "j < length items" by simp
    from Cons.IH [OF tl this] show ?thesis
      by (simp add: cs Suc)
  qed
qed

lemma CourseBase_list_dump:
  "CourseBase_list e n (map dump_course_base cs) = Some cs' \<Longrightarrow> cs' = cs"
  by (induction cs arbitrary: n cs')
     (auto simp: dump_course_base_def CourseBase_def split: if_splits)

lemma CourseBase_list_env:
  "\<forall>i \<in> set items. ci_id i \<noteq> Absent \<Longrightarrow> CourseBase_list e n items = CourseBase_list e' n' items"
proof (induction items arbitrary: n n')
  case Nil
  then show ?case by simp
next
  case (Cons a items)
  then obtain u where u: "ci_id a = Present u" by (cases "ci_id a") auto
  from Cons have "CourseBase_list e n items = CourseBase_list e' n' items" by simp
  with u show ?case by (simp add: CourseBase_def)
qed

lemma merge_course_sel [simp]:
  "cd_id (merge_course d u) = cd_id d"
  "cd_code (merge_course d u) = overwrite (cd_code d) (cu_code u)"
  "cd_title (merge_course d u) = overwrite (cd_title d) (cu_title u)"
  "cd_credits (merge_course d u) = overwrite (cd_credits d) (cu_credits u)"
  "cd_location (merge_course d u) = overwrite (cd_location d) (cu_location u)"
  "cd_created_at (merge_course d u) = cd_created_at d"
  "cd_updated_at (merge_course d u) = cd_updated_at d"
  by (simp_all add: merge_course_def)

lemma dump_course_read_sel [simp]:
  "cd_id (dump_course_read c) = cr_id c"
  "cd_code (dump_course_read c) = Some (cr_code c)"
  "cd_title (dump_course_read c) = Some (cr_title c)"
  "cd_credits (dump_course_read c) = Some (cr_credits c)"
  "cd_location (dump_course_read c) = cr_location c"
  "cd_created_at (dump_course_read c) = Present (cr_created_at c)"
  "cd_updated_at (dump_course_read c) = Present (cr_updated_at c)"
  by (simp_all add: dump_course_read_def)

lemma merge_teacher_sel [simp]:
  "td_uni (merge_teacher d u) = overwrite (td_uni d) (tu_uni u)"
  "td_first_name (merge_teacher d u) = overwrite (td_first_name d) (tu_first_name u)"
  "td_last_name (merge_teacher d u) = overwrite (td_last_name d) (tu_last_name u)"
  "td_department (merge_teacher d u) = overwrite (td_department d) (tu_department u)"
  "td_email (merge_teacher d u) = overwrite (td_email d) (tu_email u)"
  "td_academic_title (merge_teacher d u) = overwrite (td_academic_title d) (tu_academic_title u)"
  "td_office (merge_teacher d u) = overwrite (td_office d) (tu_office u)"
  "td_courses (merge_teacher d u) = overwrite (td_courses d) (tu_courses u)"
  "td_id (merge_teacher d u) = td_id d"
  "td_created_at (merge_teacher d u) = td_created_at d"
  "td_updated_at (merge_teacher d u) = td_updated_at d"
  by (simp_all add: merge_teacher_def)

lemma dump_teacher_read_sel [simp]:
  "td_uni (dump_teacher_read t) = Some (tr_uni t)"
  "td_first_name (dump_teacher_read t) = Some (tr_first_name t)"
  "td_last_name (dump_teacher_read t) = Some (tr_last_name t)"
  "td_department (dump_teacher_read t) = Some (tr_department t)"
  "td_email (dump_teacher_read t) = Some (tr_email t)"
  "td_academic_title (dump_teacher_read t) = tr_academic_title t"
  "td_office (dump_teacher_read t) = tr_office t"
  "td_courses (dump_teacher_read t) = Some (map dump_course_base (tr_courses t))"
  "td_id (dump_teacher_read t) = Present (tr_id t)"
  "td_created_at (dump_teacher_read t) = Present (tr_created_at t)"
  "td_updated_at (dump_teacher_read t) = Present (tr_updated_at t)"
  by (simp_all add: dump_teacher_read_def)

lemma CourseBase_list_fields:
  "CourseBase_list e n items = Some cs \<Longrightarrow>
     map cb_code cs = map ci_code items \<and> map cb_title cs = map ci_title items \<and>
     map cb_credits cs = map ci_credits items \<and>
     map cb_location cs = map (\<lambda>i. case ci_location i of Absent \<Rightarrow> None | Present l \<Rightarrow> l) items"
  by (induction items arbitrary: n cs)
     (auto simp: CourseBase_def overwrite_def split: if_splits patch.splits)

lemma CourseBase_list_ids:
  assumes "CourseBase_list e n items = Some cs" and "i < length items"
  shows "cb_id (cs ! i) =
     (case ci_id (items ! i) of Absent \<Rightarrow> uuid4 e (n + missing_ids (take i items)) | Present x \<Rightarrow> x)"
  using CourseBase_list_nth [OF assms]
  by (simp add: CourseBase_def overwrite_def split: patch.splits)

lemma scalar_merge:
  "overwrite (Some old) p = Some new \<Longrightarrow> Some new = (case p of Absent \<Rightarrow> Some old | Present v \<Rightarrow> v)"
  by (cases p) simp_all

lemma optional_merge:
  "overwrite old p = new \<Longrightarrow> new = (case p of Absent \<Rightarrow> old | Present v \<Rightarrow> v)"
  by (cases p) simp_all

lemma update_course_fields:
  assumes "update_course e course_id u s = (Inr c', s')"
    and "map_of (db_courses s) course_id = Some c"
  shows "map_of (db_courses s') course_id = Some c'"
    and "Some (cr_code c') = (case cu_code u of Absent \<Rightarrow> Some (cr_code c) | Present v \<Rightarrow> v)"
    and "Some (cr_title c') = (case cu_title u of Absent \<Rightarrow> Some (cr_title c) | Present v \<Rightarrow> v)"
    and "Some (cr_credits c') = (case cu_credits u of Absent \<Rightarrow> Some (cr_credits c) | Present v \<Rightarrow> v)"
    and "cr_location c' = (case cu_location u of Absent \<Rightarrow> cr_location c | Present v \<Rightarrow> v)"
proof -
  note r = update_course_Inr [OF assms]
  note f = CourseRead_Some [OF r(1), simplified]
  from r(2) show "map_of (db_courses s') course_id = Some c'"
    by (simp add: update_conv')
  from f(1) show "Some (cr_code c') = (case cu_code u of Absent \<Rightarrow> Some (cr_code c) | Present v \<Rightarrow> v)"
    by (rule scalar_merge)
  from f(2) show "Some (cr_title c') = (case cu_title u of Absent \<Rightarrow> Some (cr_title c) | Present v \<Rightarrow> v)"
    by (rule scalar_merge)
  from f(3) show "Some (cr_credits c') = (case cu_credits u of Absent \<Rightarrow> Some (cr_credits c) | Present v \<Rightarrow> v)"
    by (rule scalar_merge)
  from f(4) show "cr_location c' = (case cu_location u of Absent \<Rightarrow> cr_location c | Present v \<Rightarrow> v)"
    by (rule optional_merge)
qed

lemma update_teacher_fields:
  assumes "update_teacher email_ok e teacher_id w s = (Inr t', s')"
    and "map_of (db_teachers s) teacher_id = Some t"
  shows "map_of (db_teachers s') teacher_id = Some t'"
    and "Some (tr_uni t') = (case tu_uni w of Absent \<Rightarrow> Some (tr_uni t) | Present v \<Rightarrow> v)"
    and "Some (tr_first_name t') = (case tu_first_name w of Absent \<Rightarrow> Some (tr_first_name t) | Present v \<Rightarrow> v)"
    and "Some (tr_last_name t') = (case tu_last_name w of Absent \<Rightarrow> Some (tr_last_name t) | Present v \<Rightarrow> v)"
    and "Some (tr_department t') = (case tu_department w of Absent \<Rightarrow> Some (tr_department t) | Present v \<Rightarrow> v)"
    and "Some (tr_email t') = (case tu_email w of Absent \<Rightarrow> Some (tr_email t) | Present v \<Rightarrow> v)"
    and "tr_academic_title t' = (case tu_academic_title w of Absent \<Rightarrow> tr_academic_title t | Present v \<Rightarrow> v)"
    and "tr_office t' = (case tu_office w of Absent \<Rightarrow> tr_office t | Present v \<Rightarrow> v)"
proof -
  note r = update_teacher_Inr [OF assms]
  note f = TeacherRead_Some [OF r(1), simplified]
  from r(2) show "map_of (db_teachers s') teacher_id = Some t'"
    by (simp add: update_conv')
  from f(1) show "Some (tr_uni t') = (case tu_uni w of Absent \<Rightarrow> Some (tr_uni t) | Present v \<Rightarrow> v)"
    by (rule scalar_merge)
  from f(2) show "Some (tr_first_name t') = (case tu_first_name w of Absent \<Rightarrow> Some (tr_first_name t) | Present v \<Rightarrow> v)"
    by (rule scalar_merge)
  from f(3) show "Some (tr_last_name t') = (case tu_last_name w of Absent \<Rightarrow> Some (tr_last_name t) | Present v \<Rightarrow> v)"
    by (rule scalar_merge)
  from f(4) show "Some (tr_department t') = (case tu_department w of Absent \<Rightarrow> Some (tr_department t) | Present v \<Rightarrow> v)"
    by (rule scalar_merge)
  from f(5) show "Some (tr_email t') = (case tu_email w of Absent \<Rightarrow> Some (tr_email t) | Present v \<Rightarrow> v)"
    by (rule scalar_merge)
  from f(6) show "tr_academic_title t' = (case tu_academic_title w of Absent \<Rightarrow> tr_academic_title t | Present v \<Rightarrow> v)"
    by (rule optional_merge)
  from f(7) show "tr_office t' = (case tu_office w of Absent \<Rightarrow> tr_office t | Present v \<Rightarrow> v)"
    by (rule optional_merge)
qed

lemma update_teacher_courses:
  assumes "update_teacher email_ok e teacher_id w s = (Inr t', s')"
    and "map_of (db_teachers s) teacher_id = Some t"
  shows "tu_courses w = Absent \<Longrightarrow> tr_courses t' = tr_courses t"
    and "tu_courses w = Present v \<Longrightarrow> \<exists>items. v = Some items \<and> CourseBase_list e 0 items = Some (tr_courses t')"
proof -
  note r = update_teacher_Inr [OF assms]
  from TeacherRead_Some(8) [OF r(1)] obtain items where
    i: "overwrite (Some (map dump_course_base (tr_courses t))) (tu_courses w) = Some items"
    and l: "CourseBase_list e 0 items = Some (tr_courses t')"
    by auto
  show "tr_courses t' = tr_courses t" if "tu_courses w = Absent"
    using that i l by (auto dest: CourseBase_list_dump)
  show "\<exists>items. v = Some items \<and> CourseBase_list e 0 items = Some (tr_courses t')"
    if "tu_courses w = Present v"
    using that i l by auto
qed

lemma narrow_filter:
  "narrow criterion keep results = filter (\<lambda>a. \<forall>v. criterion = Some v \<longrightarrow> keep v a) results"
  by (cases criterion) (simp_all add: narrow_def)

lemma list_teachers_filter:
  "list_teachers uni first_name last_name department email academic_title office location credits s =
     filter (\<lambda>t. (\<forall>v. uni = Some v \<longrightarrow> tr_uni t = v) \<and>
                 (\<forall>v. first_name = Some v \<longrightarrow> tr_first_name t = v) \<and>
                 (\<forall>v. last_name = Some v \<longrightarrow> tr_last_name t = v) \<and>
                 (\<forall>v. department = Some v \<longrightarrow> tr_department t = v) \<and>
                 (\<forall>v. email = Some v \<longrightarrow> tr_email t = v) \<and>
                 (\<forall>v. academic_title = Some v \<longrightarrow> tr_academic_title t = Some v) \<and>
                 (\<forall>v. office = Some v \<longrightarrow> tr_office t = Some v) \<and>
                 (\<forall>v. location = Some v \<longrightarrow> (\<exists>c \<in> set (tr_courses t). or_empty (cb_location c) = v)) \<and>
                 (\<forall>v. credits = Some v \<longrightarrow> (\<exists>c \<in> set (tr_courses t). cb_credits c = v)))
       (map snd (db_teachers s))"
  unfolding list_teachers_def Let_def narrow_filter filter_filter list_ex_iff conj_assoc
  by (rule refl)

lemma missing_ids_dump: "missing_ids (map dump_course_base cs) = 0"
  by (simp add: missing_ids_def dump_course_base_def)

lemma list_courses_filter:
  "list_courses code title credits location s =
     filter (\<lambda>a. (\<forall>v. code = Some v \<longrightarrow> cr_code a = v) \<and>
                 (\<forall>v. title = Some v \<longrightarrow> cr_title a = v) \<and>
                 (\<forall>v. credits = Some v \<longrightarrow> cr_credits a = v) \<and>
                 (\<forall>v. location = Some v \<longrightarrow> cr_location a = Some v))
       (map snd (db_courses s))"
  unfolding list_courses_def Let_def narrow_filter filter_filter
  by (rule filter_cong) auto

lemma overwrite_again: "overwrite old p = new \<Longrightarrow> overwrite new p = overwrite old p"
  by (cases p) simp_all

lemma CourseRead_env:
  "cd_created_at d = Present a \<Longrightarrow> cd_updated_at d = Present b \<Longrightarrow> CourseRead e d = CourseRead e' d"
  by (simp add: CourseRead_def split: option.splits)

lemma merge_course_again:
  assumes "CourseRead e (merge_course (dump_course_read c) u) = Some c'"
  shows "merge_course (dump_course_read c') u = merge_course (dump_course_read c) u"
proof (rule course_dict.equality)
  note f = CourseRead_Some [OF assms, simplified]
  show "cd_code (merge_course (dump_course_read c') u) = cd_code (merge_course (dump_course_read c) u)"
    using f(1) by (simp add: overwrite_again)
  show "cd_title (merge_course (dump_course_read c') u) = cd_title (merge_course (dump_course_read c) u)"
    using f(2) by (simp add: overwrite_again)
  show "cd_credits (merge_course (dump_course_read c') u) = cd_credits (merge_course (dump_course_read c) u)"
    using f(3) by (simp add: overwrite_again)
  show "cd_location (merge_course (dump_course_read c') u) = cd_location (merge_course (dump_course_read c) u)"
    using f(4) by (simp add: overwrite_again)
qed (use CourseRead_Some(5,8,9) [OF assms] in simp_all)

lemma update_course_twice:
  "snd (update_course e' course_id u (snd (update_course e course_id u s))) =
   snd (update_course e course_id u s)"
proof (cases "map_of (db_courses s) course_id")
  case None
  then show ?thesis by (simp add: update_course_def)
next
  case (Some c)
  let ?d = "merge_course (dump_course_read c) u"
  have env: "CourseRead e' ?d = CourseRead e ?d"
    by (rule CourseRead_env) simp_all
  show ?thesis
  proof (cases "CourseRead e ?d")
    case None
    with Some env show ?thesis by (simp add: update_course_def)
  next
    case (Some c')
    from merge_course_again [OF Some] env Some
    have "CourseRead e' (merge_course (dump_course_read c') u) = Some c'" by simp
    with Some \<open>map_of (db_courses s) course_id = Some c\<close> show ?thesis
      by (simp add: update_course_def update_conv')
  qed
qed

lemma TeacherRead_env:
  assumes "td_id d = Present i" "td_created_at d = Present a" "td_updated_at d = Present b"
    and "\<And>items. td_courses d = Some items \<Longrightarrow> \<forall>i \<in> set items. ci_id i \<noteq> Absent"
  shows "TeacherRead email_ok e d = TeacherRead email_ok e' d"
proof (cases "td_courses d")
  case None
  then show ?thesis by (simp add: TeacherRead_def split: option.splits)
next
  case (Some items)
  from assms(4) [OF Some] have "CourseBase_list e 0 items = CourseBase_list e' 0 items"
    by (rule CourseBase_list_env)
  with Some assms(1-3) show ?thesis
    by (simp add: TeacherRead_def split: option.splits)
qed

lemma dump_ids_supplied: "\<forall>i \<in> set (map dump_course_base cs). ci_id i \<noteq> Absent"
  by (simp add: dump_course_base_def)

lemma merge_teacher_again:
  assumes "TeacherRead email_ok e (merge_teacher (dump_teacher_read t) w) = Some t'"
  shows "merge_teacher (dump_teacher_read t') w = merge_teacher (dump_teacher_read t) w"
proof (rule teacher_dict.equality)
  note f = TeacherRead_Some [OF assms, simplified]
  show "td_uni (merge_teacher (dump_teacher_read t') w) = td_uni (merge_teacher (dump_teacher_read t) w)"
    using f(1) by (simp add: overwrite_again)
  show "td_first_name (merge_teacher (dump_teacher_read t') w) = td_first_name (merge_teacher (dump_teacher_read t) w)"
    using f(2) by (simp add: overwrite_again)
  show "td_last_name (merge_teacher (dump_teacher_read t') w) = td_last_name (merge_teacher (dump_teacher_read t) w)"
    using f(3) by (simp add: overwrite_again)
  show "td_department (merge_teacher (dump_teacher_read t') w) = td_department (merge_teacher (dump_teacher_read t) w)"
    using f(4) by (simp add: overwrite_again)
  show "td_email (merge_teacher (dump_teacher_read t') w) = td_email (merge_teacher (dump_teacher_read t) w)"
    using f(5) by (simp add: overwrite_again)
  show "td_academic_title (merge_teacher (dump_teacher_read t') w) = td_academic_title (merge_teacher (dump_teacher_read t) w)"
    using f(6) by (simp add: overwrite_again)
  show "td_office (merge_teacher (dump_teacher_read t') w) = td_office (merge_teacher (dump_teacher_read t) w)"
    using f(7) by (simp add: overwrite_again)
  show "td_courses (merge_teacher (dump_teacher_read t') w) = td_courses (merge_teacher (dump_teacher_read t) w)"
  proof (cases "tu_courses w")
    case Absent
    with f(8) have "tr_courses t' = tr_courses t" by (auto dest: CourseBase_list_dump)
    with Absent show ?thesis by simp
  next
    case (Present v)
    then show ?thesis by simp
  qed
  from f(8) show "td_id (merge_teacher (dump_teacher_read t') w) = td_id (merge_teacher (dump_teacher_read t) w)"
    by auto
qed (use TeacherRead_Some(11,12) [OF assms] in simp_all)

lemma update_teacher_twice:
  assumes "\<And>items. tu_courses w = Present (Some items) \<Longrightarrow> \<forall>i \<in> set items. ci_id i \<noteq> Absent"
  shows "snd (update_teacher email_ok e' teacher_id w (snd (update_teacher email_ok e teacher_id w s))) =
   snd (update_teacher email_ok e teacher_id w s)"
proof (cases "map_of (db_teachers s) teacher_id")
  case None
  then show ?thesis by (simp add: update_teacher_def)
next
  case (Some t)
  let ?d = "merge_teacher (dump_teacher_read t) w"
  have env: "TeacherRead email_ok e' ?d = TeacherRead email_ok e ?d"
  proof (rule TeacherRead_env)
    fix items assume "td_courses ?d = Some items"
    then show "\<forall>i \<in> set items. ci_id i \<noteq> Absent"
      using assms dump_ids_supplied [of "tr_courses t"] by (cases "tu_courses w") auto
  qed simp_all
  show ?thesis
  proof (cases "TeacherRead email_ok e ?d")
    case None
    with Some env show ?thesis by (simp add: update_teacher_def)
  next
    case (Some t')
    from merge_teacher_again [OF Some] env Some
    have "TeacherRead email_ok e' (merge_teacher (dump_teacher_read t') w) = Some t'" by simp
    with Some \<open>map_of (db_teachers s) teacher_id = Some t\<close> show ?thesis
      by (simp add: update_teacher_def update_conv')
  qed
qed

lemma or_empty_iff: "or_empty x = v \<longleftrightarrow> x = Some v \<or> v = [] \<and> x = None"
  by (cases x) (auto simp: or_empty_def)

lemma update_teacher_without_courses:
  assumes "map_of (db_teachers s) teacher_id = Some t" and "tu_courses w = Absent"
  shows "\<exists>t''. map_of (db_teachers (snd (update_teacher email_ok e teacher_id w s))) teacher_id = Some t'' \<and>
           tr_courses t'' = tr_courses t"
proof (cases "TeacherRead email_ok e (merge_teacher (dump_teacher_read t) w)")
  case None
  with assms(1) show ?thesis by (simp add: update_teacher_def)
next
  case (Some t')
  with assms(1) have up: "update_teacher email_ok e teacher_id w s =
      (Inr t', s\<lparr>db_teachers := AList.update teacher_id t' (db_teachers s)\<rparr>)"
    by (simp add: update_teacher_def)
  from update_teacher_courses(1) [OF up assms(1) assms(2)] up show ?thesis
    by (simp add: update_conv')
qed

section \<open>Rejected course codes\<close>



section \<open>Creation and conflicts\<close>

text \<open>
  C3. \<^verbatim>\<open>create_course\<close> with an id that is already a key of \<^verbatim>\<open>courses\<close> fails with
  \<^verbatim>\<open>Conflict\<close> (status 400) and leaves the dictionaries as they were.
  \<^verbatim>\<open>create_teacher\<close> never fails with \<^verbatim>\<open>Conflict\<close>: a \<^verbatim>\<open>TeacherCreate\<close> has no id
  field, and the id of the teacher it stores is the value \<^verbatim>\<open>uuid4()\<close> returned.
\<close>

theorem create_conflict:
  "(map_of (db_courses s) (cb_id course) = Some c \<longrightarrow> create_course e course s = (Inl Conflict, s)) \<and>
   fst (create_teacher email_ok e teacher s) \<noteq> Inl Conflict \<and>
   (\<forall>t s'. create_teacher email_ok e teacher s = (Inr t, s') \<longrightarrow> tr_id t = uuid4 e 0)"
proof (intro conjI allI impI)
  assume "map_of (db_courses s) (cb_id course) = Some c"
  then show "create_course e course s = (Inl Conflict, s)"
    by (simp add: create_course_def)
next
  show "fst (create_teacher email_ok e teacher s) \<noteq> Inl Conflict"
    by (simp add: create_teacher_def split: option.split)
next
  fix t s'
  assume "create_teacher email_ok e teacher s = (Inr t, s')"
  then have "TeacherRead email_ok e (dump_teacher_create teacher) = Some t"
    by (simp add: create_teacher_def split: option.splits)
  then show "tr_id t = uuid4 e 0"
    by (auto simp: TeacherRead_def dump_teacher_create_def missing_ids_dump
        split: option.splits if_splits)
qed

theorem create_conflict_witness:
  "map_of (db_courses example_db)
     (cb_id \<lparr>cb_id = 2, cb_code = ''COMS4995'', cb_title = ''Topics'', cb_credits = 3,
             cb_location = None\<rparr>) = Some example_course' \<and>
   create_course example_env
     \<lparr>cb_id = 2, cb_code = ''COMS4995'', cb_title = ''Topics'', cb_credits = 3, cb_location = None\<rparr>
     example_db = (Inl Conflict, example_db) \<and>
   create_teacher example_email_ok example_env
     \<lparr>tc_uni = ''hi1234'', tc_first_name = ''Hugh'', tc_last_name = ''Ingrid'',
      tc_department = ''COMS'', tc_email = ''hi1234@columbia.edu'',
      tc_academic_title = None, tc_office = None, tc_courses = []\<rparr> example_db =
     (Inr \<lparr>tr_uni = ''hi1234'', tr_first_name = ''Hugh'', tr_last_name = ''Ingrid'',
           tr_department = ''COMS'', tr_email = ''hi1234@columbia.edu'',
           tr_academic_title = None, tr_office = None, tr_courses = [],
           tr_id = 100, tr_created_at = 50, tr_updated_at = 51\<rparr>,
      example_db\<lparr>db_teachers := [(9, example_teacher),
        (100, \<lparr>tr_uni = ''hi1234'', tr_first_name = ''Hugh'', tr_last_name = ''Ingrid'',
           tr_department = ''COMS'', tr_email = ''hi1234@columbia.edu'',
           tr_academic_title = None, tr_office = None, tr_courses = [],
           tr_id = 100, tr_created_at = 50, tr_updated_at = 51\<rparr>)]\<rparr>)"
  using create_conflict [where s = example_db and e = example_env and c = example_course'
      and email_ok = example_email_ok
      and course = "\<lparr>cb_id = 2, cb_code = ''COMS4995'', cb_title = ''Topics'', cb_credits = 3,
             cb_location = None\<rparr>"
      and teacher = "\<lparr>tc_uni = ''hi1234'', tc_first_name = ''Hugh'', tc_last_name = ''Ingrid'',
      tc_department = ''COMS'', tc_email = ''hi1234@columbia.edu'',
      tc_academic_title = None, tc_office = None, tc_courses = []\<rparr>"]
  by (simp add: handler_defs constraint_defs example_defs)

section \<open>What an update leaves alone\<close>

text \<open>
  C8. After a successful update the entity stored under the key has the id,
  \<^verbatim>\<open>created_at\<close> and \<^verbatim>\<open>updated_at\<close> it had before, for courses and for teachers:
  the payload classes have no such fields, and the constructor takes the three values
  from the dump of the stored entity, whatever \<^verbatim>\<open>uuid4\<close> and \<^verbatim>\<open>utcnow\<close> would return.
\<close>

theorem update_keeps_id_and_timestamps:
  "(map_of (db_courses s) course_id = Some c \<and> update_course e course_id u s = (Inr c', s') \<longrightarrow>
      map_of (db_courses s') course_id = Some c' \<and>
      cr_id c' = cr_id c \<and> cr_created_at c' = cr_created_at c \<and> cr_updated_at c' = cr_updated_at c) \<and>
   (map_of (db_teachers s) teacher_id = Some t \<and>
    update_teacher email_ok e teacher_id w s = (Inr t', s'') \<longrightarrow>
      map_of (db_teachers s'') teacher_id = Some t' \<and>
      tr_id t' = tr_id t \<and> tr_created_at t' = tr_created_at t \<and> tr_updated_at t' = tr_updated_at t)"
proof (intro conjI impI; elim conjE)
  assume c: "map_of (db_courses s) course_id = Some c"
    and up: "update_course e course_id u s = (Inr c', s')"
  note r = update_course_Inr [OF up c]
  from r(2) show "map_of (db_courses s') course_id = Some c'"
    by (simp add: update_conv')
  from CourseRead_Some(5,8,9) [OF r(1)]
  show "cr_id c' = cr_id c" "cr_created_at c' = cr_created_at c" "cr_updated_at c' = cr_updated_at c"
    by simp_all
next
  assume t: "map_of (db_teachers s) teacher_id = Some t"
    and up: "update_teacher email_ok e teacher_id w s = (Inr t', s'')"
  note r = update_teacher_Inr [OF up t]
  from r(2) show "map_of (db_teachers s'') teacher_id = Some t'"
    by (simp add: update_conv')
  from TeacherRead_Some(8,11,12) [OF r(1)]
  show "tr_id t' = tr_id t" "tr_created_at t' = tr_created_at t"
    "tr_updated_at t' = tr_updated_at t"
    by auto
qed

theorem update_keeps_id_and_timestamps_witness:
  "map_of (db_courses example_db) 1 = Some example_course \<and>
   update_course example_env 1 example_course_update example_db =
     (Inr (example_course\<lparr>cr_credits := 4, cr_location := Some ''501 Northwest Corner''\<rparr>),
      example_db\<lparr>db_courses :=
        [(1, example_course\<lparr>cr_credits := 4, cr_location := Some ''501 Northwest Corner''\<rparr>),
         (2, example_course')]\<rparr>) \<and>
   cr_created_at (example_course\<lparr>cr_credits := 4, cr_location := Some ''501 Northwest Corner''\<rparr>) = 10 \<and>
   map_of (db_teachers example_db) 9 = Some example_teacher \<and>
   fst (update_teacher example_email_ok example_env 9 example_teacher_update example_db) =
     Inr (example_teacher\<lparr>tr_first_name := ''Don'', tr_academic_title := None,
       tr_office := Some ''Mudd 620'',
       tr_courses := [\<lparr>cb_id = 100, cb_code = ''HUMA1123'', cb_title = ''Music Humanities'',
         cb_credits = 3, cb_location = Some ''404 Dodge Hall''\<rparr>]\<rparr>) \<and>
   tr_updated_at (example_teacher\<lparr>tr_first_name := ''Don'', tr_academic_title := None,
       tr_office := Some ''Mudd 620'',
       tr_courses := [\<lparr>cb_id = 100, cb_code = ''HUMA1123'', cb_title = ''Music Humanities'',
         cb_credits = 3, cb_location = Some ''404 Dodge Hall''\<rparr>]\<rparr>) = 12"
  using update_keeps_id_and_timestamps [where s = example_db and e = example_env
      and course_id = 1 and c = example_course and u = example_course_update
      and c' = "example_course\<lparr>cr_credits := 4, cr_location := Some ''501 Northwest Corner''\<rparr>"
      and s' = "example_db\<lparr>db_courses :=
        [(1, example_course\<lparr>cr_credits := 4, cr_location := Some ''501 Northwest Corner''\<rparr>),
         (2, example_course')]\<rparr>"
      and teacher_id = 9 and t = example_teacher and w = example_teacher_update
      and email_ok = example_email_ok
      and t' = "example_teacher\<lparr>tr_first_name := ''Don'', tr_academic_title := None,
       tr_office := Some ''Mudd 620'',
       tr_courses := [\<lparr>cb_id = 100, cb_code = ''HUMA1123'', cb_title = ''Music Humanities'',
         cb_credits = 3, cb_location = Some ''404 Dodge Hall''\<rparr>]\<rparr>"
      and s'' = "snd (update_teacher example_email_ok example_env 9 example_teacher_update example_db)"]
  by (simp add: handler_defs constraint_defs example_defs)

section \<open>The merge of an update\<close>

text \<open>
  C1, as amended. When an update succeeds, the entity stored under the key and returned
  holds, in every field the payload supplies, the value supplied, and in every other
  field the stored value; an explicit null counts as supplied, so it clears
  \<^verbatim>\<open>location\<close>, \<^verbatim>\<open>academic_title\<close> and \<^verbatim>\<open>office\<close>. For \<^verbatim>\<open>courses\<close> the new list
  has the supplied entries in their order, with the code, title, credits and location
  supplied and the id where one is supplied.
\<close>

theorem update_merges_fields:
  "(map_of (db_courses s) course_id = Some c \<and> update_course e course_id u s = (Inr c', s') \<longrightarrow>
      map_of (db_courses s') course_id = Some c' \<and>
      Some (cr_code c') = (case cu_code u of Absent \<Rightarrow> Some (cr_code c) | Present v \<Rightarrow> v) \<and>
      Some (cr_title c') = (case cu_title u of Absent \<Rightarrow> Some (cr_title c) | Present v \<Rightarrow> v) \<and>
      Some (cr_credits c') = (case cu_credits u of Absent \<Rightarrow> Some (cr_credits c) | Present v \<Rightarrow> v) \<and>
      cr_location c' = (case cu_location u of Absent \<Rightarrow> cr_location c | Present v \<Rightarrow> v)) \<and>
   (map_of (db_teachers s) teacher_id = Some t \<and>
    update_teacher email_ok e teacher_id w s = (Inr t', s'') \<longrightarrow>
      map_of (db_teachers s'') teacher_id = Some t' \<and>
      Some (tr_uni t') = (case tu_uni w of Absent \<Rightarrow> Some (tr_uni t) | Present v \<Rightarrow> v) \<and>
      Some (tr_first_name t') = (case tu_first_name w of Absent \<Rightarrow> Some (tr_first_name t) | Present v \<Rightarrow> v) \<and>
      Some (tr_last_name t') = (case tu_last_name w of Absent \<Rightarrow> Some (tr_last_name t) | Present v \<Rightarrow> v) \<and>
      Some (tr_department t') = (case tu_department w of Absent \<Rightarrow> Some (tr_department t) | Present v \<Rightarrow> v) \<and>
      Some (tr_email t') = (case tu_email w of Absent \<Rightarrow> Some (tr_email t) | Present v \<Rightarrow> v) \<and>
      tr_academic_title t' = (case tu_academic_title w of Absent \<Rightarrow> tr_academic_title t | Present v \<Rightarrow> v) \<and>
      tr_office t' = (case tu_office w of Absent \<Rightarrow> tr_office t | Present v \<Rightarrow> v) \<and>
      (case tu_courses w of
         Absent \<Rightarrow> tr_courses t' = tr_courses t
       | Present v \<Rightarrow>
           (\<exists>items. v = Some items \<and>
              map cb_code (tr_courses t') = map ci_code items \<and>
              map cb_title (tr_courses t') = map ci_title items \<and>
              map cb_credits (tr_courses t') = map ci_credits items \<and>
              map cb_location (tr_courses t') =
                map (\<lambda>i. case ci_location i of Absent \<Rightarrow> None | Present l \<Rightarrow> l) items \<and>
              (\<forall>i < length items. \<forall>x. ci_id (items ! i) = Present x \<longrightarrow> cb_id (tr_courses t' ! i) = x))))"
proof (rule conjI; rule impI; elim conjE)
  assume "map_of (db_courses s) course_id = Some c"
    and "update_course e course_id u s = (Inr c', s')"
  from update_course_fields [OF this(2,1)]
  show "map_of (db_courses s') course_id = Some c' \<and>
      Some (cr_code c') = (case cu_code u of Absent \<Rightarrow> Some (cr_code c) | Present v \<Rightarrow> v) \<and>
      Some (cr_title c') = (case cu_title u of Absent \<Rightarrow> Some (cr_title c) | Present v \<Rightarrow> v) \<and>
      Some (cr_credits c') = (case cu_credits u of Absent \<Rightarrow> Some (cr_credits c) | Present v \<Rightarrow> v) \<and>
      cr_location c' = (case cu_location u of Absent \<Rightarrow> cr_location c | Present v \<Rightarrow> v)"
    by (intro conjI)
next
  assume t: "map_of (db_teachers s) teacher_id = Some t"
    and up: "update_teacher email_ok e teacher_id w s = (Inr t', s'')"
  have courses: "case tu_courses w of
         Absent \<Rightarrow> tr_courses t' = tr_courses t
       | Present v \<Rightarrow>
           (\<exists>items. v = Some items \<and>
              map cb_code (tr_courses t') = map ci_code items \<and>
              map cb_title (tr_courses t') = map ci_title items \<and>
              map cb_credits (tr_courses t') = map ci_credits items \<and>
              map cb_location (tr_courses t') =
                map (\<lambda>i. case ci_location i of Absent \<Rightarrow> None | Present l \<Rightarrow> l) items \<and>
              (\<forall>i < length items. \<forall>x. ci_id (items ! i) = Present x \<longrightarrow> cb_id (tr_courses t' ! i) = x))"
  proof (cases "tu_courses w")
    case Absent
    with update_teacher_courses(1) [OF up t] show ?thesis by simp
  next
    case (Present v)
    from update_teacher_courses(2) [OF up t Present] obtain items where
      v: "v = Some items" and l: "CourseBase_list e 0 items = Some (tr_courses t')"
      by blast
    from CourseBase_list_fields [OF l] CourseBase_list_ids [OF l]
    show ?thesis by (simp add: Present v)
  qed
  from update_teacher_fields [OF up t] courses
  show "map_of (db_teachers s'') teacher_id = Some t' \<and>
      Some (tr_uni t') = (case tu_uni w of Absent \<Rightarrow> Some (tr_uni t) | Present v \<Rightarrow> v) \<and>
      Some (tr_first_name t') = (case tu_first_name w of Absent \<Rightarrow> Some (tr_first_name t) | Present v \<Rightarrow> v) \<and>
      Some (tr_last_name t') = (case tu_last_name w of Absent \<Rightarrow> Some (tr_last_name t) | Present v \<Rightarrow> v) \<and>
      Some (tr_department t') = (case tu_department w of Absent \<Rightarrow> Some (tr_department t) | Present v \<Rightarrow> v) \<and>
      Some (tr_email t') = (case tu_email w of Absent \<Rightarrow> Some (tr_email t) | Present v \<Rightarrow> v) \<and>
      tr_academic_title t' = (case tu_academic_title w of Absent \<Rightarrow> tr_academic_title t | Present v \<Rightarrow> v) \<and>
      tr_office t' = (case tu_office w of Absent \<Rightarrow> tr_office t | Present v \<Rightarrow> v) \<and>
      (case tu_courses w of
         Absent \<Rightarrow> tr_courses t' = tr_courses t
       | Present v \<Rightarrow>
           (\<exists>items. v = Some items \<and>
              map cb_code (tr_courses t') = map ci_code items \<and>
              map cb_title (tr_courses t') = map ci_title items \<and>
              map cb_credits (tr_courses t') = map ci_credits items \<and>
              map cb_location (tr_courses t') =
                map (\<lambda>i. case ci_location i of Absent \<Rightarrow> None | Present l \<Rightarrow> l) items \<and>
              (\<forall>i < length items. \<forall>x. ci_id (items ! i) = Present x \<longrightarrow> cb_id (tr_courses t' ! i) = x)))"
    by (intro conjI)
qed

theorem update_merges_fields_witness:
  "map_of (db_courses example_db) 1 = Some example_course \<and>
   update_course example_env 1 example_course_update example_db =
     (Inr (example_course\<lparr>cr_credits := 4, cr_location := Some ''501 Northwest Corner''\<rparr>),
      example_db\<lparr>db_courses :=
        [(1, example_course\<lparr>cr_credits := 4, cr_location := Some ''501 Northwest Corner''\<rparr>),
         (2, example_course')]\<rparr>) \<and>
   map_of (db_teachers example_db) 9 = Some example_teacher \<and>
   update_teacher example_email_ok example_env 9 example_teacher_update example_db =
     (Inr (example_teacher\<lparr>tr_first_name := ''Don'', tr_academic_title := None,
        tr_office := Some ''Mudd 620'',
        tr_courses := [\<lparr>cb_id = 100, cb_code = ''HUMA1123'', cb_title = ''Music Humanities'',
          cb_credits = 3, cb_location = Some ''404 Dodge Hall''\<rparr>]\<rparr>),
      example_db\<lparr>db_teachers :=
        [(9, example_teacher\<lparr>tr_first_name := ''Don'', tr_academic_title := None,
        tr_office := Some ''Mudd 620'',
        tr_courses := [\<lparr>cb_id = 100, cb_code = ''HUMA1123'', cb_title = ''Music Humanities'',
          cb_credits = 3, cb_location = Some ''404 Dodge Hall''\<rparr>]\<rparr>)]\<rparr>)"
  using update_merges_fields [where s = example_db and e = example_env
      and course_id = 1 and c = example_course and u = example_course_update
      and c' = "example_course\<lparr>cr_credits := 4, cr_location := Some ''501 Northwest Corner''\<rparr>"
      and s' = "example_db\<lparr>db_courses :=
        [(1, example_course\<lparr>cr_credits := 4, cr_location := Some ''501 Northwest Corner''\<rparr>),
         (2, example_course')]\<rparr>"
      and teacher_id = 9 and t = example_teacher and w = example_teacher_update
      and email_ok = example_email_ok
      and t' = "example_teacher\<lparr>tr_first_name := ''Don'', tr_academic_title := None,
        tr_office := Some ''Mudd 620'',
        tr_courses := [\<lparr>cb_id = 100, cb_code = ''HUMA1123'', cb_title = ''Music Humanities'',
          cb_credits = 3, cb_location = Some ''404 Dodge Hall''\<rparr>]\<rparr>"
      and s'' = "example_db\<lparr>db_teachers :=
        [(9, example_teacher\<lparr>tr_first_name := ''Don'', tr_academic_title := None,
        tr_office := Some ''Mudd 620'',
        tr_courses := [\<lparr>cb_id = 100, cb_code = ''HUMA1123'', cb_title = ''Music Humanities'',
          cb_credits = 3, cb_location = Some ''404 Dodge Hall''\<rparr>]\<rparr>)]\<rparr>"]
  by (simp add: handler_defs constraint_defs example_defs)

text \<open>
  C1 as stated promises the merged entity for every payload. A payload that supplies
  \<^verbatim>\<open>title\<close> as null is a well-formed \<^verbatim>\<open>CourseUpdate\<close>, yet the update stores and
  returns nothing: the constructor refuses \<^verbatim>\<open>None\<close> for a required field.
\<close>

theorem update_null_title_counterexample:
  "map_of (db_courses example_db) 1 = Some example_course \<and>
   update_course example_env 1
     \<lparr>cu_code = Absent, cu_title = Present None, cu_credits = Absent, cu_location = Absent\<rparr>
     example_db = (Inl ValidationError, example_db)"
  by (simp add: handler_defs constraint_defs example_defs)

section \<open>Applying an update twice\<close>

text \<open>
  C7, as amended. Two requests with the same payload, served in environments \<open>e\<close> and
  \<open>e'\<close>, leave the dictionaries that the first request alone leaves: always for a course
  update, and for a teacher update whenever every entry of a supplied \<^verbatim>\<open>courses\<close> list
  carries its id (a payload without \<^verbatim>\<open>courses\<close>, or with \<^verbatim>\<open>courses\<close> null, included).
\<close>

theorem update_idempotent:
  "snd (update_course e' course_id u (snd (update_course e course_id u s))) =
     snd (update_course e course_id u s) \<and>
   ((\<forall>items. tu_courses w = Present (Some items) \<longrightarrow> (\<forall>i \<in> set items. ci_id i \<noteq> Absent)) \<longrightarrow>
      snd (update_teacher email_ok e' teacher_id w (snd (update_teacher email_ok e teacher_id w s))) =
        snd (update_teacher email_ok e teacher_id w s))"
proof (intro conjI impI)
  show "snd (update_course e' course_id u (snd (update_course e course_id u s))) =
     snd (update_course e course_id u s)"
    by (rule update_course_twice)
next
  assume "\<forall>items. tu_courses w = Present (Some items) \<longrightarrow> (\<forall>i \<in> set items. ci_id i \<noteq> Absent)"
  then show "snd (update_teacher email_ok e' teacher_id w (snd (update_teacher email_ok e teacher_id w s))) =
        snd (update_teacher email_ok e teacher_id w s)"
    by (intro update_teacher_twice) blast
qed

theorem update_idempotent_witness:
  "tu_courses example_teacher_update' =
     Present (Some [\<lparr>ci_id = Present 8, ci_code = ''HUMA1123'', ci_title = ''Music Humanities'',
       ci_credits = 3, ci_location = Absent\<rparr>]) \<and>
   db_teachers (snd (update_teacher example_email_ok example_env 9 example_teacher_update' example_db)) =
     [(9, example_teacher\<lparr>tr_department := ''HUMA'',
        tr_courses := [\<lparr>cb_id = 8, cb_code = ''HUMA1123'', cb_title = ''Music Humanities'',
          cb_credits = 3, cb_location = None\<rparr>]\<rparr>)] \<and>
   snd (update_teacher example_email_ok example_env' 9 example_teacher_update'
         (snd (update_teacher example_email_ok example_env 9 example_teacher_update' example_db))) =
     snd (update_teacher example_email_ok example_env 9 example_teacher_update' example_db)"
  using update_idempotent [where w = example_teacher_update' and e = example_env
      and e' = example_env' and teacher_id = 9 and s = example_db
      and email_ok = example_email_ok]
  by (simp add: handler_defs constraint_defs example_defs)

text \<open>
  C7 as stated includes the teacher updates that supply \<^verbatim>\<open>courses\<close>. When an entry
  comes without an id, each request builds the entry anew and takes its id from
  \<^verbatim>\<open>uuid4\<close>: the first request gives the embedded course the id 100, the second
  request, where \<^verbatim>\<open>uuid4\<close> returns 200, replaces it by 200.
\<close>

theorem update_teacher_twice_counterexample:
  "db_teachers (snd (update_teacher example_email_ok example_env 9 example_teacher_update
      example_db)) =
     [(9, example_teacher\<lparr>tr_first_name := ''Don'', tr_academic_title := None,
        tr_office := Some ''Mudd 620'',
        tr_courses := [\<lparr>cb_id = 100, cb_code = ''HUMA1123'', cb_title = ''Music Humanities'',
          cb_credits = 3, cb_location = Some ''404 Dodge Hall''\<rparr>]\<rparr>)] \<and>
   db_teachers (snd (update_teacher example_email_ok example_env' 9 example_teacher_update
      (snd (update_teacher example_email_ok example_env 9 example_teacher_update example_db)))) =
     [(9, example_teacher\<lparr>tr_first_name := ''Don'', tr_academic_title := None,
        tr_office := Some ''Mudd 620'',
        tr_courses := [\<lparr>cb_id = 200, cb_code = ''HUMA1123'', cb_title = ''Music Humanities'',
          cb_credits = 3, cb_location = Some ''404 Dodge Hall''\<rparr>]\<rparr>)] \<and>
   db_teachers (snd (update_teacher example_email_ok example_env' 9 example_teacher_update
        (snd (update_teacher example_email_ok example_env 9 example_teacher_update example_db)))) \<noteq>
   db_teachers (snd (update_teacher example_email_ok example_env 9 example_teacher_update example_db))"
  by (simp add: handler_defs constraint_defs example_defs)

section \<open>The embedded course list\<close>

text \<open>
  C4, as amended. When a teacher update whose payload supplies \<^verbatim>\<open>courses\<close> as a list
  succeeds, the teacher stored under the key has the payload's list, entry by entry and
  in the payload's order, each entry completed with the defaults of \<^verbatim>\<open>CourseBase\<close> for
  what it leaves out (\<^verbatim>\<open>None\<close> for \<^verbatim>\<open>location\<close>, the next \<^verbatim>\<open>uuid4()\<close> for \<^verbatim>\<open>id\<close>);
  nothing of the stored list enters it, and the empty list gives the empty list. When
  the update of a stored teacher fails, it fails with \<^verbatim>\<open>ValidationError\<close> and the
  dictionaries, the stored list with them, are what they were. A payload without
  \<^verbatim>\<open>courses\<close> leaves the stored list as it is, whether the update succeeds or fails.
\<close>

theorem update_teacher_replaces_courses:
  "(map_of (db_teachers s) teacher_id = Some t \<and>
    update_teacher email_ok e teacher_id w s = (Inr t', s') \<longrightarrow>
     map_of (db_teachers s') teacher_id = Some t' \<and>
     (tu_courses w = Absent \<longrightarrow> tr_courses t' = tr_courses t) \<and>
     (tu_courses w = Present (Some []) \<longrightarrow> tr_courses t' = []) \<and>
     (\<forall>items. tu_courses w = Present (Some items) \<longrightarrow>
        length (tr_courses t') = length items \<and>
        (\<forall>i < length items. tr_courses t' ! i =
           \<lparr>cb_id = (case ci_id (items ! i) of
                       Absent \<Rightarrow> uuid4 e (missing_ids (take i items)) | Present x \<Rightarrow> x),
            cb_code = ci_code (items ! i), cb_title = ci_title (items ! i),
            cb_credits = ci_credits (items ! i),
            cb_location = (case ci_location (items ! i) of Absent \<Rightarrow> None | Present l \<Rightarrow> l)\<rparr>))) \<and>
   (map_of (db_teachers s) teacher_id = Some t \<and>
    update_teacher email_ok e teacher_id w s = (Inl err, s'') \<longrightarrow>
      err = ValidationError \<and> s'' = s) \<and>
   (map_of (db_teachers s) teacher_id = Some t \<and> tu_courses w = Absent \<longrightarrow>
      (\<exists>t''. map_of (db_teachers (snd (update_teacher email_ok e teacher_id w s))) teacher_id =
               Some t'' \<and> tr_courses t'' = tr_courses t))"
proof (intro conjI impI allI; elim conjE)
  assume "map_of (db_teachers s) teacher_id = Some t" and "tu_courses w = Absent"
  then show "\<exists>t''. map_of (db_teachers (snd (update_teacher email_ok e teacher_id w s))) teacher_id =
               Some t'' \<and> tr_courses t'' = tr_courses t"
    by (rule update_teacher_without_courses)
next
  assume t: "map_of (db_teachers s) teacher_id = Some t"
    and up: "update_teacher email_ok e teacher_id w s = (Inl err, s'')"
  from t up show "err = ValidationError" "s'' = s"
    by (auto simp: update_teacher_def split: option.splits)
next
  assume t: "map_of (db_teachers s) teacher_id = Some t"
    and up: "update_teacher email_ok e teacher_id w s = (Inr t', s')"
  from update_teacher_Inr(2) [OF up t] show "map_of (db_teachers s') teacher_id = Some t'"
    by (simp add: update_conv')
  show "tr_courses t' = tr_courses t" if "tu_courses w = Absent"
    using that by (rule update_teacher_courses(1) [OF up t])
  show "tr_courses t' = []" if "tu_courses w = Present (Some [])"
    using update_teacher_courses(2) [OF up t that] by simp
  fix items
  assume "tu_courses w = Present (Some items)"
  from update_teacher_courses(2) [OF up t this]
  have l: "CourseBase_list e 0 items = Some (tr_courses t')" by simp
  from l show "length (tr_courses t') = length items"
    by (rule CourseBase_list_length)
  fix i
  assume "i < length items"
  from CourseBase_list_nth [OF l this]
  show "tr_courses t' ! i =
           \<lparr>cb_id = (case ci_id (items ! i) of
                       Absent \<Rightarrow> uuid4 e (missing_ids (take i items)) | Present x \<Rightarrow> x),
            cb_code = ci_code (items ! i), cb_title = ci_title (items ! i),
            cb_credits = ci_credits (items ! i),
            cb_location = (case ci_location (items ! i) of Absent \<Rightarrow> None | Present l \<Rightarrow> l)\<rparr>"
    by (simp add: CourseBase_def overwrite_def split: patch.splits)
qed

theorem update_teacher_replaces_courses_witness:
  "map_of (db_teachers example_db) 9 = Some example_teacher \<and>
   update_teacher example_email_ok example_env 9 example_teacher_update example_db =
     (Inr (example_teacher\<lparr>tr_first_name := ''Don'', tr_academic_title := None,
        tr_office := Some ''Mudd 620'',
        tr_courses := [\<lparr>cb_id = 100, cb_code = ''HUMA1123'', cb_title = ''Music Humanities'',
          cb_credits = 3, cb_location = Some ''404 Dodge Hall''\<rparr>]\<rparr>),
      example_db\<lparr>db_teachers :=
        [(9, example_teacher\<lparr>tr_first_name := ''Don'', tr_academic_title := None,
        tr_office := Some ''Mudd 620'',
        tr_courses := [\<lparr>cb_id = 100, cb_code = ''HUMA1123'', cb_title = ''Music Humanities'',
          cb_credits = 3, cb_location = Some ''404 Dodge Hall''\<rparr>]\<rparr>)]\<rparr>) \<and>
   tu_courses example_teacher_update \<noteq> Absent \<and>
   update_teacher example_email_ok example_env 9
     \<lparr>tu_uni = Absent, tu_first_name = Present None, tu_last_name = Absent,
      tu_department = Absent, tu_email = Absent, tu_academic_title = Absent, tu_office = Absent,
      tu_courses = Absent\<rparr> example_db = (Inl ValidationError, example_db) \<and>
   map_of (db_teachers (snd (update_teacher example_email_ok example_env 9
     \<lparr>tu_uni = Absent, tu_first_name = Present None, tu_last_name = Absent,
      tu_department = Absent, tu_email = Absent, tu_academic_title = Absent, tu_office = Absent,
      tu_courses = Absent\<rparr> example_db))) 9 = Some example_teacher"
  using update_teacher_replaces_courses [where s = example_db and e = example_env
      and teacher_id = 9 and t = example_teacher and w = example_teacher_update
      and email_ok = example_email_ok
      and t' = "example_teacher\<lparr>tr_first_name := ''Don'', tr_academic_title := None,
        tr_office := Some ''Mudd 620'',
        tr_courses := [\<lparr>cb_id = 100, cb_code = ''HUMA1123'', cb_title = ''Music Humanities'',
          cb_credits = 3, cb_location = Some ''404 Dodge Hall''\<rparr>]\<rparr>"
      and s' = "example_db\<lparr>db_teachers :=
        [(9, example_teacher\<lparr>tr_first_name := ''Don'', tr_academic_title := None,
        tr_office := Some ''Mudd 620'',
        tr_courses := [\<lparr>cb_id = 100, cb_code = ''HUMA1123'', cb_title = ''Music Humanities'',
          cb_credits = 3, cb_location = Some ''404 Dodge Hall''\<rparr>]\<rparr>)]\<rparr>"]
    update_teacher_replaces_courses [where s = example_db and e = example_env
      and teacher_id = 9 and t = example_teacher and email_ok = example_email_ok
      and w = "\<lparr>tu_uni = Absent, tu_first_name = Present None, tu_last_name = Absent,
        tu_department = Absent, tu_email = Absent, tu_academic_title = Absent,
        tu_office = Absent, tu_courses = Absent\<rparr>"
      and err = ValidationError and s'' = example_db]
  by (simp add: handler_defs constraint_defs example_defs)

text \<open>
  C4 as stated has every payload whose \<^verbatim>\<open>courses\<close> is present replace the stored list.
  The payload \<^verbatim>\<open>{"courses": [], "uni": null}\<close> and the payload \<^verbatim>\<open>{"courses": null}\<close> are
  well-formed \<^verbatim>\<open>TeacherUpdate\<close> objects; the constructor \<^verbatim>\<open>TeacherRead\<close> refuses
  \<^verbatim>\<open>None\<close> for \<^verbatim>\<open>uni\<close> and for \<^verbatim>\<open>courses\<close>, the update fails, and the stored teacher
  keeps its one embedded course.
\<close>

theorem update_teacher_courses_counterexample:
  "map_of (db_teachers example_db) 9 = Some example_teacher \<and>
   tr_courses example_teacher =
     [\<lparr>cb_id = 7, cb_code = ''COMS4701'', cb_title = ''Cloud Computing'', cb_credits = 3,
       cb_location = None\<rparr>] \<and>
   update_teacher example_email_ok example_env 9
     \<lparr>tu_uni = Present None, tu_first_name = Absent, tu_last_name = Absent,
      tu_department = Absent, tu_email = Absent, tu_academic_title = Absent, tu_office = Absent,
      tu_courses = Present (Some [])\<rparr> example_db = (Inl ValidationError, example_db) \<and>
   update_teacher example_email_ok example_env 9
     \<lparr>tu_uni = Absent, tu_first_name = Absent, tu_last_name = Absent,
      tu_department = Absent, tu_email = Absent, tu_academic_title = Absent, tu_office = Absent,
      tu_courses = Present None\<rparr> example_db = (Inl ValidationError, example_db)"
  by (simp add: handler_defs constraint_defs example_defs)

text \<open>
  C9, as amended. An embedded course is a \<^verbatim>\<open>CourseBase\<close>: it has the fields \<^verbatim>\<open>id\<close>,
  \<^verbatim>\<open>code\<close>, \<^verbatim>\<open>title\<close>, \<^verbatim>\<open>credits\<close> and \<^verbatim>\<open>location\<close> and no timestamps. Creating a
  teacher stores the payload's entries with the ids they carry; an update keeps the id
  an entry supplies and gives an entry without one the next value of \<^verbatim>\<open>uuid4\<close>.
  Neither handler touches the dictionary \<^verbatim>\<open>courses\<close>: an embedded course is no row of
  the course store.
\<close>

theorem embedded_courses_carry_ids:
  "db_courses (snd (create_teacher email_ok e teacher s)) = db_courses s \<and>
   db_courses (snd (update_teacher email_ok e teacher_id w s)) = db_courses s \<and>
   (\<forall>t s'. create_teacher email_ok e teacher s = (Inr t, s') \<longrightarrow> tr_courses t = tc_courses teacher) \<and>
   (\<forall>t t' s' items i.
      map_of (db_teachers s) teacher_id = Some t \<and>
      update_teacher email_ok e teacher_id w s = (Inr t', s') \<and>
      tu_courses w = Present (Some items) \<and> i < length items \<longrightarrow>
        cb_id (tr_courses t' ! i) =
          (case ci_id (items ! i) of
             Absent \<Rightarrow> uuid4 e (missing_ids (take i items)) | Present x \<Rightarrow> x))"
proof (intro conjI allI impI; (elim conjE)?)
  show "db_courses (snd (create_teacher email_ok e teacher s)) = db_courses s"
    by (simp add: create_teacher_def split: option.split)
  show "db_courses (snd (update_teacher email_ok e teacher_id w s)) = db_courses s"
    by (simp add: update_teacher_def split: option.split)
next
  fix t s'
  assume "create_teacher email_ok e teacher s = (Inr t, s')"
  then have "TeacherRead email_ok e (dump_teacher_create teacher) = Some t"
    by (simp add: create_teacher_def split: option.splits)
  from TeacherRead_Some(8) [OF this]
  have "CourseBase_list e 0 (map dump_course_base (tc_courses teacher)) = Some (tr_courses t)"
    by (auto simp: dump_teacher_create_def)
  then show "tr_courses t = tc_courses teacher"
    by (rule CourseBase_list_dump)
next
  fix t t' s' items i
  assume t: "map_of (db_teachers s) teacher_id = Some t"
    and up: "update_teacher email_ok e teacher_id w s = (Inr t', s')"
    and w: "tu_courses w = Present (Some items)" and i: "i < length items"
  from update_teacher_courses(2) [OF up t w]
  have "CourseBase_list e 0 items = Some (tr_courses t')" by simp
  from CourseBase_list_ids [OF this i]
  show "cb_id (tr_courses t' ! i) =
          (case ci_id (items ! i) of
             Absent \<Rightarrow> uuid4 e (missing_ids (take i items)) | Present x \<Rightarrow> x)"
    by (simp split: patch.splits)
qed

theorem embedded_courses_carry_ids_witness:
  "create_teacher example_email_ok example_env (example_teacher_create 7) example_db =
     (Inr \<lparr>tr_uni = ''hi1234'', tr_first_name = ''Hugh'', tr_last_name = ''Ingrid'',
       tr_department = ''COMS'', tr_email = ''hi1234@columbia.edu'',
       tr_academic_title = Some ''Teaching Assistant'', tr_office = None,
       tr_courses = tc_courses (example_teacher_create 7),
       tr_id = 100, tr_created_at = 50, tr_updated_at = 51\<rparr>,
      example_db\<lparr>db_teachers := [(9, example_teacher),
        (100, \<lparr>tr_uni = ''hi1234'', tr_first_name = ''Hugh'', tr_last_name = ''Ingrid'',
       tr_department = ''COMS'', tr_email = ''hi1234@columbia.edu'',
       tr_academic_title = Some ''Teaching Assistant'', tr_office = None,
       tr_courses = tc_courses (example_teacher_create 7),
       tr_id = 100, tr_created_at = 50, tr_updated_at = 51\<rparr>)]\<rparr>) \<and>
   map_of (db_teachers example_db) 9 = Some example_teacher \<and>
   fst (update_teacher example_email_ok example_env 9 example_teacher_update example_db) =
     Inr (example_teacher\<lparr>tr_first_name := ''Don'', tr_academic_title := None,
        tr_office := Some ''Mudd 620'',
        tr_courses := [\<lparr>cb_id = 100, cb_code = ''HUMA1123'', cb_title = ''Music Humanities'',
          cb_credits = 3, cb_location = Some ''404 Dodge Hall''\<rparr>]\<rparr>)"
  using embedded_courses_carry_ids [where s = example_db and e = example_env
      and teacher = "example_teacher_create 7" and teacher_id = 9
      and w = example_teacher_update and email_ok = example_email_ok]
  by (simp add: handler_defs constraint_defs example_defs)

text \<open>
  C9 as stated gives an embedded entry no id field. Two creation payloads whose embedded
  course has the same code, title, credits and location, and the ids 7 and 8, store
  different embedded entries: the entry carries its id.
\<close>

theorem embedded_course_id_counterexample:
  "map_sum id tr_courses
     (fst (create_teacher example_email_ok example_env (example_teacher_create 7) example_db)) =
     Inr [\<lparr>cb_id = 7, cb_code = ''COMS4701'', cb_title = ''Cloud Computing'', cb_credits = 3,
           cb_location = Some ''501 Northwest Corner''\<rparr>] \<and>
   map_sum id tr_courses
     (fst (create_teacher example_email_ok example_env (example_teacher_create 8) example_db)) =
     Inr [\<lparr>cb_id = 8, cb_code = ''COMS4701'', cb_title = ''Cloud Computing'', cb_credits = 3,
           cb_location = Some ''501 Northwest Corner''\<rparr>]"
  by (simp add: handler_defs constraint_defs example_defs)

section \<open>Listing\<close>

text \<open>
  C5. Each list handler returns the values of its dictionary, in the dictionary's order,
  that satisfy every criterion present, a criterion on a field of the entity being an
  equality with that field (for teachers the two criteria on the embedded courses join
  the same conjunction). With no criterion the whole listing comes back; an empty
  dictionary, or no match, gives the empty list. The handlers have no failure.
\<close>

theorem list_is_conjunctive_filter:
  "list_courses code title credits location s =
     filter (\<lambda>a. (\<forall>v. code = Some v \<longrightarrow> cr_code a = v) \<and>
                 (\<forall>v. title = Some v \<longrightarrow> cr_title a = v) \<and>
                 (\<forall>v. credits = Some v \<longrightarrow> cr_credits a = v) \<and>
                 (\<forall>v. location = Some v \<longrightarrow> cr_location a = Some v))
       (map snd (db_courses s)) \<and>
   list_teachers uni first_name last_name department email academic_title office nested_location
       nested_credits s =
     filter (\<lambda>t. (\<forall>v. uni = Some v \<longrightarrow> tr_uni t = v) \<and>
                 (\<forall>v. first_name = Some v \<longrightarrow> tr_first_name t = v) \<and>
                 (\<forall>v. last_name = Some v \<longrightarrow> tr_last_name t = v) \<and>
                 (\<forall>v. department = Some v \<longrightarrow> tr_department t = v) \<and>
                 (\<forall>v. email = Some v \<longrightarrow> tr_email t = v) \<and>
                 (\<forall>v. academic_title = Some v \<longrightarrow> tr_academic_title t = Some v) \<and>
                 (\<forall>v. office = Some v \<longrightarrow> tr_office t = Some v) \<and>
                 (\<forall>v. nested_location = Some v \<longrightarrow>
                    (\<exists>c \<in> set (tr_courses t). or_empty (cb_location c) = v)) \<and>
                 (\<forall>v. nested_credits = Some v \<longrightarrow> (\<exists>c \<in> set (tr_courses t). cb_credits c = v)))
       (map snd (db_teachers s)) \<and>
   list_courses None None None None s = map snd (db_courses s) \<and>
   list_teachers None None None None None None None None None s = map snd (db_teachers s) \<and>
   (db_courses s = [] \<longrightarrow> list_courses code title credits location s = []) \<and>
   (db_teachers s = [] \<longrightarrow>
      list_teachers uni first_name last_name department email academic_title office nested_location
        nested_credits s = [])"
proof (intro conjI impI)
  show "list_courses None None None None s = map snd (db_courses s)"
    by (simp add: list_courses_def narrow_def)
  show "list_teachers None None None None None None None None None s = map snd (db_teachers s)"
    by (simp add: list_teachers_def narrow_def)
  show "list_courses code title credits location s = []" if "db_courses s = []"
    using that by (simp add: list_courses_filter)
  show "list_teachers uni first_name last_name department email academic_title office nested_location
        nested_credits s = []" if "db_teachers s = []"
    using that by (simp add: list_teachers_filter)
qed (rule list_courses_filter list_teachers_filter)+

theorem list_is_conjunctive_filter_witness:
  "list_courses None None (Some 3) (Some ''417 International Affairs Building'') example_db =
     [example_course'] \<and>
   list_courses None None (Some 3) None example_db = [example_course, example_course'] \<and>
   list_courses (Some ''COMS4701'') None (Some 5) None example_db = [] \<and>
   list_teachers None None None (Some ''COMS'') None (Some ''Professor'') None None None example_db =
     [example_teacher] \<and>
   db_courses \<lparr>db_courses = [], db_teachers = []\<rparr> = [] \<and>
   list_courses None None (Some 3) None \<lparr>db_courses = [], db_teachers = []\<rparr> = []"
  using list_is_conjunctive_filter [where s = example_db and code = None and title = None
      and credits = "Some 3" and location = "Some ''417 International Affairs Building''"
      and uni = None and first_name = None and last_name = None and department = "Some ''COMS''"
      and email = None and academic_title = "Some ''Professor''" and office = None
      and nested_location = None and nested_credits = None]
    list_is_conjunctive_filter [where s = "\<lparr>db_courses = [], db_teachers = []\<rparr>" and code = None
      and title = None and credits = "Some 3" and location = None]
  by (simp add: handler_defs example_defs)

section \<open>Criteria on the embedded courses\<close>

text \<open>
  C6, as amended. With only the two nested criteria present, a stored teacher is listed
  exactly when, for \<^verbatim>\<open>credits\<close>, one of its embedded courses has that number of
  credits, and, for \<^verbatim>\<open>location\<close>, one of its embedded courses has that location,
  where a course without location counts as having the empty string. A teacher without
  embedded courses is never listed when a nested criterion is present, whatever the
  other criteria are.
\<close>

theorem nested_criteria:
  "(t \<in> set (list_teachers None None None None None None None nested_location nested_credits s) \<longleftrightarrow>
      t \<in> snd ` set (db_teachers s) \<and>
      (\<forall>v. nested_location = Some v \<longrightarrow>
         (\<exists>c \<in> set (tr_courses t). cb_location c = Some v \<or> v = [] \<and> cb_location c = None)) \<and>
      (\<forall>v. nested_credits = Some v \<longrightarrow> (\<exists>c \<in> set (tr_courses t). cb_credits c = v))) \<and>
   (tr_courses t = [] \<and> (nested_location \<noteq> None \<or> nested_credits \<noteq> None) \<longrightarrow>
      t \<notin> set (list_teachers uni first_name last_name department email academic_title office
                 nested_location nested_credits s))"
  unfolding list_teachers_filter or_empty_iff by auto

theorem nested_criteria_witness:
  "set (list_teachers None None None None None None None None (Some 3) example_db) =
     {example_teacher} \<and>
   list_teachers None None None None None None None (Some ''501 Northwest Corner'') None example_db = [] \<and>
   tr_courses (example_teacher\<lparr>tr_courses := []\<rparr>) = [] \<and>
   list_teachers None None None None None None None None (Some 3)
     \<lparr>db_courses = [], db_teachers = [(9, example_teacher\<lparr>tr_courses := []\<rparr>)]\<rparr> = []"
  using nested_criteria [where s = example_db and t = example_teacher and nested_location = None
      and nested_credits = "Some 3"]
    nested_criteria [where
      s = "\<lparr>db_courses = [], db_teachers = [(9, example_teacher\<lparr>tr_courses := []\<rparr>)]\<rparr>"
      and t = "example_teacher\<lparr>tr_courses := []\<rparr>" and nested_location = None
      and nested_credits = "Some 3" and uni = None and first_name = None and last_name = None
      and department = None and email = None and academic_title = None and office = None]
  by (simp add: handler_defs example_defs)

text \<open>
  C6 as stated asks for an embedded course whose field equals the criterion value. The
  only embedded course of the example teacher has no location; no field of it equals the
  empty string, and still the criterion \<^verbatim>\<open>location=""\<close> lists the teacher.
\<close>

theorem nested_location_counterexample:
  "list_teachers None None None None None None None (Some []) None example_db = [example_teacher] \<and>
   map cb_location (tr_courses example_teacher) = [None]"
  by (simp add: handler_defs example_defs)



end
